theory Spec2Isabelle
  imports Complex_Main "HOL-Library.Sublist"
begin

section \<open>JavaScript strings\<close>

text \<open>
  A JavaScript string is modelled as a \<^typ>\<open>string\<close>: the list of its code units, taken
  below 256. \<open>String.prototype.trim\<close> removes white space and line terminators from both
  ends; in that range these are the code units 9 to 13, 32 and 160.
\<close>

definition isWhiteSpace :: "char \<Rightarrow> bool" where
  "isWhiteSpace c = (of_char c \<in> {9, 10, 11, 12, 13, 32, 160 :: nat})"

definition trim :: "string \<Rightarrow> string" where
  "trim s = rev (dropWhile isWhiteSpace (rev (dropWhile isWhiteSpace s)))"

section \<open>The external-link record (admin route)\<close>

text \<open>
  \<^verbatim>\<open>interface ExternalLink { text: string; url: string; enabled: boolean; }\<close>
\<close>

record ExternalLink =
  link_text :: string
  link_url :: string
  link_enabled :: bool

text \<open>
  \<^verbatim>\<open>const isEmptyLink = (link) => (!link.url || link.url.trim() === '');\<close>
  The empty string is the only falsy string.
\<close>

definition isEmptyLink :: "ExternalLink \<Rightarrow> bool" where
  "isEmptyLink link = (link_url link = [] \<or> trim (link_url link) = [])"

text \<open>
  \<^verbatim>\<open>const validLinks = expandedProduct.externalLinks.filter(link => !isEmptyLink(link));\<close>
  is the normalisation that \<open>saveProductConfiguration\<close> and \<open>handleSaveBarSave\<close> apply
  before they build the form.
\<close>

definition normalize_links :: "ExternalLink list \<Rightarrow> ExternalLink list" where
  "normalize_links externalLinks = filter (\<lambda>link. \<not> isEmptyLink link) externalLinks"

section \<open>Form data\<close>

text \<open>
  \<open>FormData.get(name)\<close> is the first value stored under the name, or \<open>null\<close>. The keys
  \<^verbatim>\<open>link_${i}_url\<close> are built from the decimal form of the index, and the action reads
  the number of links back with \<open>parseInt(s, 10)\<close>: leading white space, an optional sign,
  then the longest run of decimal digits, \<open>NaN\<close> (here \<open>None\<close>) when that run is empty.
\<close>

type_synonym FormData = "string \<Rightarrow> string option"

fun toString :: "nat \<Rightarrow> string" where
  "toString n =
     (if n < 10 then [''0123456789'' ! n] else toString (n div 10) @ [''0123456789'' ! (n mod 10)])"

declare toString.simps [simp del]

definition isDigit :: "char \<Rightarrow> bool" where
  "isDigit c = (48 \<le> (of_char c :: nat) \<and> (of_char c :: nat) \<le> 57)"

definition parseInt :: "string \<Rightarrow> int option" where
  "parseInt s =
     (let t = dropWhile isWhiteSpace s;
          negative = (case t of [] \<Rightarrow> False | c # r \<Rightarrow> c = CHR ''-'');
          u = (case t of [] \<Rightarrow> [] | c # r \<Rightarrow> if c = CHR ''-'' \<or> c = CHR ''+'' then r else t);
          ds = takeWhile isDigit u;
          v = foldl (\<lambda>a c. 10 * a + (int (of_char c) - 48)) 0 ds
      in if ds = [] then None else Some (if negative then - v else v))"

text \<open>\<^verbatim>\<open>formData.get(name) as string || ""\<close>\<close>

definition getOrEmpty :: "FormData \<Rightarrow> string \<Rightarrow> string" where
  "getOrEmpty formData name = (case formData name of None \<Rightarrow> [] | Some v \<Rightarrow> v)"

text \<open>
  The save branch of \<open>action\<close> (src/unnamed/part_003) reads the links back from the form:
  \<^verbatim>\<open>
  const linkCount = parseInt(linkCountString as string || "0", 10);
  for (let i = 0; i < linkCount; i++) {
    const url = formData.get(`link_${i}_url`) as string || "";
    const text = formData.get(`link_${i}_text`) as string || "";
    const enabled = formData.get(`link_${i}_enabled`) === "on";
    externalLinks.push({ url: url, text: text, enabled: enabled });
  }\<close>
  With \<open>NaN\<close> or a count that is not positive the loop body never runs.
\<close>

definition formLinkCount :: "FormData \<Rightarrow> nat" where
  "formLinkCount formData =
     (case parseInt (if getOrEmpty formData ''linkCount'' = [] then ''0''
                     else getOrEmpty formData ''linkCount'') of
        None \<Rightarrow> 0
      | Some n \<Rightarrow> nat n)"

definition formLink :: "FormData \<Rightarrow> nat \<Rightarrow> ExternalLink" where
  "formLink formData i =
     \<lparr>link_text = getOrEmpty formData (''link_'' @ toString i @ ''_text''),
      link_url = getOrEmpty formData (''link_'' @ toString i @ ''_url''),
      link_enabled = (formData (''link_'' @ toString i @ ''_enabled'') = Some ''on'')\<rparr>"

definition formLinks :: "FormData \<Rightarrow> ExternalLink list" where
  "formLinks formData = map (formLink formData) [0 ..< formLinkCount formData]"

text \<open>
  The client side, \<open>saveProductConfiguration\<close> (and \<open>handleSaveBarSave\<close>, which builds
  the same form): the links are normalised first, then written under the indexed keys;
  a check box is sent as \<open>"on"\<close> only when it is ticked.
\<close>

record ExpandedProduct =
  ep_id :: string
  ep_isExpanded :: bool
  ep_isEditing :: bool
  ep_externalLinks :: "ExternalLink list"
  ep_hideAtc :: bool
  ep_isSaving :: bool

fun setLinks :: "nat \<Rightarrow> ExternalLink list \<Rightarrow> FormData \<Rightarrow> FormData" where
  "setLinks index [] formData = formData"
| "setLinks index (link # links) formData =
     setLinks (Suc index) links
       (let f1 = formData(''link_'' @ toString index @ ''_url'' \<mapsto> link_url link);
            f2 = f1(''link_'' @ toString index @ ''_text'' \<mapsto> link_text link)
        in if link_enabled link then f2(''link_'' @ toString index @ ''_enabled'' \<mapsto> ''on'') else f2)"

definition saveFormData :: "string \<Rightarrow> ExpandedProduct \<Rightarrow> FormData" where
  "saveFormData productId expandedProduct =
     (let validLinks = normalize_links (ep_externalLinks expandedProduct);
          f0 = [''actionType'' \<mapsto> ''save'', ''productId'' \<mapsto> productId,
                ''linkCount'' \<mapsto> toString (length validLinks)];
          f1 = setLinks 0 validLinks f0
      in if ep_hideAtc expandedProduct then f1(''hideAtc'' \<mapsto> ''on'') else f1)"

section \<open>The remote store as the admin route sees it\<close>

text \<open>
  \<open>admin.graphql(query, variables)\<close> followed by \<open>response.json()\<close> either throws or
  yields an untyped JSON document that the route reads through optional chains. The
  response record has one optional field for every path the route reads; an error
  carries its \<open>message\<close>.
\<close>

datatype exn = Error string | TypeError string | SyntaxError string

fun exn_message :: "exn \<Rightarrow> string" where
  "exn_message (Error m) = m"
| "exn_message (TypeError m) = m"
| "exn_message (SyntaxError m) = m"

record MetafieldNode =
  mf_id :: string
  mf_key :: string
  mf_value :: string
  mf_type :: string

record MetafieldIdentifier =
  ident_ownerId :: string
  ident_namespace :: string
  ident_key :: string

record MetafieldInput =
  input_namespace :: string
  input_id :: "string option"
  input_key :: string
  input_value :: string
  input_type :: string

record Theme =
  theme_id :: string
  theme_name :: string
  theme_role :: string

record ThemeFile =
  tf_filename :: string
  tf_body :: string

record ProductNode =
  pn_id :: string
  pn_title :: string
  pn_handle :: string
  pn_metafields_nodes :: "MetafieldNode list option"

record GraphQLResponse =
  resp_errors :: "string list option"
  data_product_title :: "string option"
  data_product_metafields_nodes :: "MetafieldNode list option"
  data_productUpdate_userErrors :: "string list option"
  data_metafieldsDelete_userErrors :: "string list option"
  data_currentAppInstallation_metafields_nodes :: "string list option"
  data_themes_nodes :: "Theme list option"
  data_theme_files_nodes :: "ThemeFile list option"
  data_themeFilesUpsert_userErrors :: "string list option"
  data_products_nodes :: "ProductNode list option"

datatype request =
    QueryProductMetafields string
  | MetafieldsDelete "MetafieldIdentifier list"
  | ProductUpdate string "MetafieldInput list"
  | QueryProducts
  | QueryThemes
  | QueryAutoInstallSentinel
  | QueryMainThemes
  | QueryThemeFiles string
  | ThemeFilesUpsert string string string
  | MetafieldsSetSentinel

text \<open>
  The remote is any state machine answering requests; a session pairs its state with
  the list of the requests issued so far.
\<close>

type_synonym 'w admin = "request \<Rightarrow> 'w \<Rightarrow> (exn + GraphQLResponse) \<times> 'w"

type_synonym 'w session = "'w \<times> request list"

definition graphql :: "'w admin \<Rightarrow> request \<Rightarrow> 'w session \<Rightarrow> (exn + GraphQLResponse) \<times> 'w session" where
  "graphql admin req s = (case admin req (fst s) of (r, w) \<Rightarrow> (r, (w, snd s @ [req])))"

section \<open>Serialising the links\<close>

text \<open>
  \<open>JSON.stringify\<close> of an array of \<^verbatim>\<open>{ url, text, enabled }\<close> objects: no white space,
  the properties in the order of the object literal, strings quoted with the escapes of
  \<open>QuoteJSONString\<close>.
\<close>

definition hexDigit :: "nat \<Rightarrow> char" where
  "hexDigit n = ''0123456789abcdef'' ! n"

definition quoteChar :: "char \<Rightarrow> string" where
  "quoteChar c =
     (let n = (of_char c :: nat) in
      if n = 34 then [CHR 0x5C, CHR 0x22]
      else if n = 92 then [CHR 0x5C, CHR 0x5C]
      else if n = 8 then [CHR 0x5C, CHR ''b'']
      else if n = 9 then [CHR 0x5C, CHR ''t'']
      else if n = 10 then [CHR 0x5C, CHR ''n'']
      else if n = 12 then [CHR 0x5C, CHR ''f'']
      else if n = 13 then [CHR 0x5C, CHR ''r'']
      else if n < 32 then [CHR 0x5C, CHR ''u'', CHR ''0'', CHR ''0'', hexDigit (n div 16), hexDigit (n mod 16)]
      else [c])"

definition quoteJSONString :: "string \<Rightarrow> string" where
  "quoteJSONString str = [CHR 0x22] @ concat (map quoteChar str) @ [CHR 0x22]"

fun join :: "string \<Rightarrow> string list \<Rightarrow> string" where
  "join sep [] = []"
| "join sep [x] = x"
| "join sep (x # y # ys) = x @ sep @ join sep (y # ys)"

definition stringifyLink :: "ExternalLink \<Rightarrow> string" where
  "stringifyLink link =
     ''{'' @ quoteJSONString ''url'' @ '':'' @ quoteJSONString (link_url link) @ '','' @
     quoteJSONString ''text'' @ '':'' @ quoteJSONString (link_text link) @ '','' @
     quoteJSONString ''enabled'' @ '':'' @ (if link_enabled link then ''true'' else ''false'') @ ''}''"

definition JSON_stringify :: "ExternalLink list \<Rightarrow> string" where
  "JSON_stringify links = ''['' @ join '','' (map stringifyLink links) @ '']''"

section \<open>The action of the admin route (src/unnamed/part_003)\<close>

text \<open>\<^verbatim>\<open>json({ success, error?, message? })\<close>\<close>

record ActionData =
  success :: bool
  error :: "string option"
  message :: "string option"

definition failed :: "string \<Rightarrow> ActionData" where
  "failed msg = \<lparr>success = False, error = Some msg, message = None\<rparr>"

definition succeeded :: "string \<Rightarrow> ActionData" where
  "succeeded msg = \<lparr>success = True, error = None, message = Some msg\<rparr>"

definition METAFIELD_NAMESPACE :: string where
  "METAFIELD_NAMESPACE = ''bl_custom_button''"

text \<open>
  \<^verbatim>\<open>
  const keysToKeep = new Set(['external_links']);
  if (hideAtc) { keysToKeep.add('hide_atc'); }
  const metafieldsToDelete = existingMetafields.filter(mf => !keysToKeep.has(mf.key));\<close>
\<close>

definition keysToKeep :: "bool \<Rightarrow> string list" where
  "keysToKeep hideAtc = (if hideAtc then [''external_links'', ''hide_atc''] else [''external_links''])"

definition metafieldsToDelete :: "bool \<Rightarrow> MetafieldNode list \<Rightarrow> MetafieldNode list" where
  "metafieldsToDelete hideAtc existingMetafields =
     filter (\<lambda>mf. mf_key mf \<notin> set (keysToKeep hideAtc)) existingMetafields"

text \<open>
  \<^verbatim>\<open>new Map(existingMetafields.map(mf => [mf.key, mf]))\<close>: a later entry replaces an
  earlier one with the same key.
\<close>

definition existingMetafieldMap :: "MetafieldNode list \<Rightarrow> string \<Rightarrow> MetafieldNode option" where
  "existingMetafieldMap existingMetafields =
     map_of (rev (map (\<lambda>mf. (mf_key mf, mf)) existingMetafields))"

text \<open>
  \<^verbatim>\<open>
  // Always save external links data (even if empty or all disabled)
  const jsonValue = JSON.stringify(externalLinks);
  const existingExternalLinks = existingMetafieldMap.get("external_links");
  metafieldsToSave.push({
    ...(existingExternalLinks ? { id: existingExternalLinks.id } : {}),
    key: "external_links", value: jsonValue, type: "json" });
  if (hideAtc) {
    const existingHideAtc = existingMetafieldMap.get("hide_atc");
    metafieldsToSave.push({
      ...(existingHideAtc ? { id: existingHideAtc.id } : {}),
      key: "hide_atc", value: "true", type: "single_line_text_field" });
  }\<close>
\<close>

record FieldToSave =
  field_id :: "string option"
  field_key :: string
  field_value :: string
  field_type :: string

definition metafieldsToSave :: "bool \<Rightarrow> ExternalLink list \<Rightarrow> MetafieldNode list \<Rightarrow> FieldToSave list" where
  "metafieldsToSave hideAtc links existingMetafields =
     [\<lparr>field_id = map_option mf_id (existingMetafieldMap existingMetafields ''external_links''),
       field_key = ''external_links'', field_value = JSON_stringify links, field_type = ''json''\<rparr>] @
     (if hideAtc then
        [\<lparr>field_id = map_option mf_id (existingMetafieldMap existingMetafields ''hide_atc''),
          field_key = ''hide_atc'', field_value = ''true'',
          field_type = ''single_line_text_field''\<rparr>]
      else [])"

text \<open>
  The mutation variables: \<^verbatim>\<open>...(field.id ? { id: field.id } : {})\<close> leaves an empty id out.
\<close>

definition mutationInput :: "FieldToSave \<Rightarrow> MetafieldInput" where
  "mutationInput field =
     \<lparr>input_namespace = METAFIELD_NAMESPACE,
      input_id = (case field_id field of None \<Rightarrow> None | Some i \<Rightarrow> if i = [] then None else Some i),
      input_key = field_key field, input_value = field_value field,
      input_type = field_type field\<rparr>"

definition metafieldIdentifier :: "string \<Rightarrow> string \<Rightarrow> MetafieldIdentifier" where
  "metafieldIdentifier productId k =
     \<lparr>ident_ownerId = productId, ident_namespace = METAFIELD_NAMESPACE, ident_key = k\<rparr>"

definition orEmpty :: "'a list option \<Rightarrow> 'a list" where
  "orEmpty v = (case v of None \<Rightarrow> [] | Some xs \<Rightarrow> xs)"

text \<open>
  The \<open>productUpdate\<close> step, the same in every version of the route: nothing is sent
  for an empty list; a response with \<open>errors\<close> (present, even if empty) or with user
  errors ends the save with the joined messages.
  \<^verbatim>\<open>
  if (saveData.errors || (saveData.data?.productUpdate?.userErrors?.length ?? 0) > 0) {
    const errors = saveData.errors || saveData.data?.productUpdate?.userErrors || [];
    return json({ error: "Failed to save: " + errors.map((e: any) => e.message).join(", "),
                  success: false });
  }\<close>
\<close>

definition productUpdateStep ::
  "'w admin \<Rightarrow> string \<Rightarrow> MetafieldInput list \<Rightarrow> 'w session \<Rightarrow> (exn + ActionData) \<times> 'w session" where
  "productUpdateStep admin productId inputs s =
     (if inputs = [] then (Inr (succeeded ''Product configuration saved successfully!''), s)
      else
        (case graphql admin (ProductUpdate productId inputs) s of
           (Inl e, s') \<Rightarrow> (Inl e, s')
         | (Inr saveData, s') \<Rightarrow>
             (case resp_errors saveData of
                Some es \<Rightarrow> (Inr (failed (''Failed to save: '' @ join '', '' es)), s')
              | None \<Rightarrow>
                  if orEmpty (data_productUpdate_userErrors saveData) \<noteq> []
                  then (Inr (failed (''Failed to save: '' @
                          join '', '' (orEmpty (data_productUpdate_userErrors saveData)))), s')
                  else (Inr (succeeded ''Product configuration saved successfully!''), s'))))"

text \<open>
  The save branch: read the existing metafields, delete the ones no longer kept (the
  response of that call is never read), then upsert.
\<close>

definition action_save ::
  "'w admin \<Rightarrow> FormData \<Rightarrow> string \<Rightarrow> 'w session \<Rightarrow> (exn + ActionData) \<times> 'w session" where
  "action_save admin formData productId s =
     (let hideAtc = (formData ''hideAtc'' = Some ''on'');
          links = formLinks formData
      in case graphql admin (QueryProductMetafields productId) s of
           (Inl e, s1) \<Rightarrow> (Inl e, s1)
         | (Inr existingData, s1) \<Rightarrow>
             (let existingMetafields = orEmpty (data_product_metafields_nodes existingData);
                  toDelete = metafieldsToDelete hideAtc existingMetafields;
                  inputs = map mutationInput (metafieldsToSave hideAtc links existingMetafields)
              in if toDelete \<noteq> [] then
                   (case graphql admin
                           (MetafieldsDelete (map (\<lambda>mf. metafieldIdentifier productId (mf_key mf)) toDelete)) s1 of
                      (Inl e, s2) \<Rightarrow> (Inl e, s2)
                    | (Inr deleteData, s2) \<Rightarrow> productUpdateStep admin productId inputs s2)
                 else productUpdateStep admin productId inputs s1))"

text \<open>
  The delete branch (the same text in src/unnamed/part_002 and in
  app/routes/app._index.tsx). \<open>errors[0].message\<close> on an empty \<open>errors\<close> array is a
  \<open>TypeError\<close>; a missing title prints as \<open>undefined\<close>.
\<close>

definition firstErrorMessage :: "string list \<Rightarrow> exn + string" where
  "firstErrorMessage es =
     (case es of
        [] \<Rightarrow> Inl (TypeError (''Cannot read properties of undefined (reading '' @ [CHR 0x27] @
                               ''message'' @ [CHR 0x27] @ '')''))
      | m # ms \<Rightarrow> Inr m)"

definition action_delete ::
  "'w admin \<Rightarrow> string \<Rightarrow> 'w session \<Rightarrow> (exn + ActionData) \<times> 'w session" where
  "action_delete admin productId s =
     (case graphql admin (QueryProductMetafields productId) s of
        (Inl e, s1) \<Rightarrow> (Inl e, s1)
      | (Inr metafieldsData, s1) \<Rightarrow>
          (case resp_errors metafieldsData of
             Some es \<Rightarrow>
               (case firstErrorMessage es of
                  Inl e \<Rightarrow> (Inl e, s1)
                | Inr m \<Rightarrow> (Inr (failed (''Failed to fetch metafields: '' @ m)), s1))
           | None \<Rightarrow>
               (let existingMetafields = orEmpty (data_product_metafields_nodes metafieldsData)
                in if length existingMetafields > 0 then
                     (case graphql admin
                             (MetafieldsDelete
                                (map (\<lambda>mf. metafieldIdentifier productId (mf_key mf)) existingMetafields)) s1 of
                        (Inl e, s2) \<Rightarrow> (Inl e, s2)
                      | (Inr deleteData, s2) \<Rightarrow>
                          (case resp_errors deleteData of
                             Some es \<Rightarrow>
                               (case firstErrorMessage es of
                                  Inl e \<Rightarrow> (Inl e, s2)
                                | Inr m \<Rightarrow>
                                    (Inr (failed (''Failed to delete product configuration: '' @ m)), s2))
                           | None \<Rightarrow>
                               if orEmpty (data_metafieldsDelete_userErrors deleteData) \<noteq> []
                               then (Inr (failed ''Failed to delete product configuration''), s2)
                               else (Inr (succeeded
                                       (''Configuration for '' @ [CHR 0x22] @
                                        (case data_product_title metafieldsData of
                                           None \<Rightarrow> ''undefined'' | Some t \<Rightarrow> t) @
                                        [CHR 0x22] @ '' has been removed successfully.'')), s2)))
                   else (Inr (succeeded ''Product configuration was already removed.''), s1))))"

text \<open>
  The whole action: the branch is chosen by \<open>actionType\<close> and a non-empty \<open>productId\<close>;
  whatever is thrown inside is caught and reported under the one prefix
  \<^verbatim>\<open>"Failed to delete product configuration: " + error.message\<close>.
\<close>

definition action :: "'w admin \<Rightarrow> FormData \<Rightarrow> 'w session \<Rightarrow> ActionData \<times> 'w session" where
  "action admin formData s =
     (let actionType = formData ''actionType'';
          productId = getOrEmpty formData ''productId'';
          r = (if actionType = Some ''save'' \<and> productId \<noteq> [] then action_save admin formData productId s
               else if actionType = Some ''delete'' \<and> productId \<noteq> [] then action_delete admin productId s
               else (Inr (failed ''Invalid action''), s))
      in case r of
           (Inl e, s') \<Rightarrow> (failed (''Failed to delete product configuration: '' @ exn_message e), s')
         | (Inr d, s') \<Rightarrow> (d, s'))"

section \<open>The older save branch (app/routes/app._index.tsx)\<close>

text \<open>
  The route file under app/routes keeps an earlier save branch. A check box is read
  from its own field or, when that is absent, from a hidden companion field; every
  existing metafield of the namespace is deleted first; \<open>external_links\<close> is created
  only for a non-empty array:
  \<^verbatim>\<open>
  if (externalLinks.length > 0) {
    metafieldsToCreate.push({ key: "external_links",
      value: JSON.stringify(externalLinks), type: "json" });
  }
  if (hideAtc) {
    metafieldsToCreate.push({ key: "hide_atc", value: "true",
      type: "single_line_text_field" });
  }\<close>
\<close>

definition formLink_app_index :: "FormData \<Rightarrow> nat \<Rightarrow> ExternalLink" where
  "formLink_app_index formData linkIndex =
     \<lparr>link_text = getOrEmpty formData (''link_'' @ toString linkIndex @ ''_text''),
      link_url = getOrEmpty formData (''link_'' @ toString linkIndex @ ''_url''),
      link_enabled =
        (formData (''link_'' @ toString linkIndex @ ''_enabled'') = Some ''on'' \<or>
         (formData (''link_'' @ toString linkIndex @ ''_enabled'') = None \<and>
          formData (''link_'' @ toString linkIndex @ ''_enabled_hidden'') = Some ''true''))\<rparr>"

definition metafieldsToCreate :: "bool \<Rightarrow> ExternalLink list \<Rightarrow> MetafieldInput list" where
  "metafieldsToCreate hideAtc links =
     (if length links > 0 then
        [\<lparr>input_namespace = METAFIELD_NAMESPACE, input_id = None, input_key = ''external_links'',
          input_value = JSON_stringify links, input_type = ''json''\<rparr>]
      else []) @
     (if hideAtc then
        [\<lparr>input_namespace = METAFIELD_NAMESPACE, input_id = None, input_key = ''hide_atc'',
          input_value = ''true'', input_type = ''single_line_text_field''\<rparr>]
      else [])"

definition action_save_app_index ::
  "'w admin \<Rightarrow> FormData \<Rightarrow> string \<Rightarrow> 'w session \<Rightarrow> (exn + ActionData) \<times> 'w session" where
  "action_save_app_index admin formData productId s =
     (let hideAtc = (formData ''hideAtc'' = Some ''on'' \<or>
                     (formData ''hideAtc'' = None \<and> formData ''hideAtc_hidden'' = Some ''true''));
          links = map (formLink_app_index formData) [0 ..< formLinkCount formData]
      in case graphql admin (QueryProductMetafields productId) s of
           (Inl e, s1) \<Rightarrow> (Inl e, s1)
         | (Inr deleteData, s1) \<Rightarrow>
             (let keysToDelete = map mf_key (orEmpty (data_product_metafields_nodes deleteData))
              in if keysToDelete \<noteq> [] then
                   (case graphql admin
                           (MetafieldsDelete (map (metafieldIdentifier productId) keysToDelete)) s1 of
                      (Inl e, s2) \<Rightarrow> (Inl e, s2)
                    | (Inr deleteResult, s2) \<Rightarrow>
                        productUpdateStep admin productId (metafieldsToCreate hideAtc links) s2)
                 else productUpdateStep admin productId (metafieldsToCreate hideAtc links) s1))"

definition action_app_index :: "'w admin \<Rightarrow> FormData \<Rightarrow> 'w session \<Rightarrow> ActionData \<times> 'w session" where
  "action_app_index admin formData s =
     (let actionType = formData ''actionType'';
          productId = getOrEmpty formData ''productId'';
          r = (if actionType = Some ''save'' \<and> productId \<noteq> []
               then action_save_app_index admin formData productId s
               else if actionType = Some ''delete'' \<and> productId \<noteq> [] then action_delete admin productId s
               else (Inr (failed ''Invalid action''), s))
      in case r of
           (Inl e, s') \<Rightarrow> (failed (''Failed to delete product configuration: '' @ exn_message e), s')
         | (Inr d, s') \<Rightarrow> (d, s'))"

section \<open>A reference remote\<close>

text \<open>
  A small in-memory shop, used as the concrete remote of the examples: the metafields
  of the \<open>bl_custom_button\<close> namespace with their owners, the app-installation
  metafield \<open>auto_install.block_installed\<close>, the themes and the files of the main
  theme. Deleting and upserting behave as a key-value store does; no request fails.
\<close>

record Shop =
  shop_metafields :: "(string \<times> MetafieldNode) list"
  shop_sentinel :: "string list"
  shop_themes :: "Theme list"
  shop_files :: "ThemeFile list"

definition emptyResponse :: GraphQLResponse where
  "emptyResponse =
     \<lparr>resp_errors = None, data_product_title = None, data_product_metafields_nodes = None,
      data_productUpdate_userErrors = None, data_metafieldsDelete_userErrors = None,
      data_currentAppInstallation_metafields_nodes = None, data_themes_nodes = None,
      data_theme_files_nodes = None, data_themeFilesUpsert_userErrors = None,
      data_products_nodes = None\<rparr>"

definition nodesOf :: "Shop \<Rightarrow> string \<Rightarrow> MetafieldNode list" where
  "nodesOf shop owner = map snd (filter (\<lambda>e. fst e = owner) (shop_metafields shop))"

fun upsertNode :: "string \<Rightarrow> MetafieldInput \<Rightarrow> (string \<times> MetafieldNode) list \<Rightarrow> (string \<times> MetafieldNode) list" where
  "upsertNode owner i [] =
     [(owner, \<lparr>mf_id = ''gid://shopify/Metafield/'' @ input_key i, mf_key = input_key i,
                mf_value = input_value i, mf_type = input_type i\<rparr>)]"
| "upsertNode owner i (e # es) =
     (if fst e = owner \<and> mf_key (snd e) = input_key i
      then (owner, (snd e)\<lparr>mf_value := input_value i, mf_type := input_type i\<rparr>) # es
      else e # upsertNode owner i es)"

fun shop_admin :: "Shop admin" where
  "shop_admin (QueryProductMetafields productId) shop =
     (Inr (emptyResponse\<lparr>data_product_title := Some ''Product'',
                         data_product_metafields_nodes := Some (nodesOf shop productId)\<rparr>), shop)"
| "shop_admin (MetafieldsDelete ids) shop =
     (Inr (emptyResponse\<lparr>data_metafieldsDelete_userErrors := Some []\<rparr>),
      shop\<lparr>shop_metafields :=
             filter (\<lambda>e. metafieldIdentifier (fst e) (mf_key (snd e)) \<notin> set ids) (shop_metafields shop)\<rparr>)"
| "shop_admin (ProductUpdate productId inputs) shop =
     (Inr (emptyResponse\<lparr>data_productUpdate_userErrors := Some []\<rparr>),
      shop\<lparr>shop_metafields := foldl (\<lambda>es i. upsertNode productId i es) (shop_metafields shop) inputs\<rparr>)"
| "shop_admin QueryAutoInstallSentinel shop =
     (Inr (emptyResponse\<lparr>data_currentAppInstallation_metafields_nodes := Some (shop_sentinel shop)\<rparr>), shop)"
| "shop_admin MetafieldsSetSentinel shop =
     (Inr emptyResponse, shop\<lparr>shop_sentinel := [''2025-01-01T00:00:00.000Z'']\<rparr>)"
| "shop_admin QueryMainThemes shop =
     (Inr (emptyResponse\<lparr>data_themes_nodes := Some (filter (\<lambda>t. theme_role t = ''MAIN'') (shop_themes shop))\<rparr>), shop)"
| "shop_admin QueryThemes shop =
     (Inr (emptyResponse\<lparr>data_themes_nodes := Some (shop_themes shop)\<rparr>), shop)"
| "shop_admin (QueryThemeFiles themeId) shop =
     (Inr (emptyResponse\<lparr>data_theme_files_nodes := Some (shop_files shop)\<rparr>), shop)"
| "shop_admin (ThemeFilesUpsert themeId name content) shop =
     (Inr (emptyResponse\<lparr>data_themeFilesUpsert_userErrors := Some []\<rparr>),
      shop\<lparr>shop_files := map (\<lambda>f. if tf_filename f = name then f\<lparr>tf_body := content\<rparr> else f) (shop_files shop)\<rparr>)"
| "shop_admin QueryProducts shop = (Inr emptyResponse, shop)"

section \<open>Parsed JSON\<close>

text \<open>
  What \<open>JSON.parse\<close> returns is any JSON value, in the loader of the admin route (whose
  declared type \<open>ExternalLink[]\<close> is erased at run time) as in the storefront script. An
  object is the list of its properties (were a name listed twice, the later entry counts,
  as in \<open>JSON.parse\<close>). Reading a property of \<open>null\<close> throws; the three names the code
  reads from an entry (\<open>enabled\<close>, \<open>url\<close>, \<open>text\<close>) are not properties of arrays or of
  primitive values, where the read gives \<open>undefined\<close> (here \<open>None\<close>).
\<close>

datatype json =
    JNull
  | JBool bool
  | JNum rat
  | JString string
  | JArray "json list"
  | JObject "(string \<times> json) list"

fun truthy :: "json \<Rightarrow> bool" where
  "truthy JNull = False"
| "truthy (JBool b) = b"
| "truthy (JNum n) = (n \<noteq> 0)"
| "truthy (JString str) = (str \<noteq> [])"
| "truthy (JArray xs) = True"
| "truthy (JObject kvs) = True"

definition truthyOrUndefined :: "json option \<Rightarrow> bool" where
  "truthyOrUndefined v = (case v of None \<Rightarrow> False | Some x \<Rightarrow> truthy x)"

fun getProperty :: "json \<Rightarrow> string \<Rightarrow> exn + json option" where
  "getProperty JNull name = Inl (TypeError ''Cannot read properties of null'')"
| "getProperty (JObject kvs) name = Inr (map_of (rev kvs) name)"
| "getProperty v name = Inr None"

section \<open>The loader of the admin route (src/unnamed/part_003)\<close>

text \<open>
  Every product node is mapped to the record the page shows. \<open>metafieldMap\<close> is filled by
  assignments in the order of the nodes, so a later node wins.
  \<^verbatim>\<open>
  let externalLinks: ExternalLink[] = [];
  let buttonText = "";
  let externalUrl = "";
  let isEnabled = false;
  if (metafieldMap["external_links"]) {
    try {
      externalLinks = JSON.parse(metafieldMap["external_links"]);
      const enabledLink = externalLinks.find((link) => link.enabled === true);
      if (enabledLink) {
        buttonText = enabledLink.text || "";
        externalUrl = enabledLink.url || "";
        isEnabled = true;
      }
    } catch (error) { }
  } else {
    buttonText = metafieldMap["button_text"] || "";
    externalUrl = metafieldMap["external_url"] || "";
    isEnabled = metafieldMap["is_enabled"] === "true";
  }
  const productData = { ...,
    hideAtc: metafieldMap["hide_atc"] === "true",
    hasMetafields: metafields.length > 0,
    hasMultipleLinks: externalLinks.length > 1,
    externalLinks: externalLinks };\<close>
  The run time of the loader, as far as this code uses it: \<open>JSON.parse\<close> (\<open>None\<close> for a
  \<open>SyntaxError\<close>) and the conversion to a number that \<open>>\<close> applies to an operand that is a
  string, an array or an object (\<open>None\<close> for \<open>NaN\<close>; the conversion of an object can
  throw). They are parameters of the model. Since the parsed value is not checked, the
  fields \<open>externalLinks\<close>, \<open>buttonText\<close> and \<open>externalUrl\<close> of a product hold JSON values.
\<close>

record Runtime =
  rt_parse :: "string \<Rightarrow> json option"
  rt_toNumber :: "json \<Rightarrow> exn + rat option"

record Product =
  p_id :: string
  p_title :: string
  p_handle :: string
  p_externalUrl :: json
  p_buttonText :: json
  p_isEnabled :: bool
  p_hideAtc :: bool
  p_hasMetafields :: bool
  p_hasMultipleLinks :: bool
  p_externalLinks :: json

definition metafieldMap :: "MetafieldNode list \<Rightarrow> string \<Rightarrow> string option" where
  "metafieldMap metafields = map_of (rev (map (\<lambda>mf. (mf_key mf, mf_value mf)) metafields))"

definition orEmptyString :: "string option \<Rightarrow> string" where
  "orEmptyString v = (case v of None \<Rightarrow> [] | Some x \<Rightarrow> x)"

text \<open>
  \<open>externalLinks.find(link => link.enabled === true)\<close>: \<open>find\<close> is a function only of
  arrays, and the callback throws on a \<open>null\<close> entry that it reaches.
\<close>

fun findEnabledLink :: "json list \<Rightarrow> exn + json option" where
  "findEnabledLink [] = Inr None"
| "findEnabledLink (link # links) =
     (case getProperty link ''enabled'' of
        Inl e \<Rightarrow> Inl e
      | Inr enabled \<Rightarrow> if enabled = Some (JBool True) then Inr (Some link) else findEnabledLink links)"

definition findEnabled :: "json \<Rightarrow> exn + json option" where
  "findEnabled externalLinks =
     (case externalLinks of
        JArray links \<Rightarrow> findEnabledLink links
      | JNull \<Rightarrow>
          Inl (TypeError (''Cannot read properties of null (reading '' @ [CHR 0x27] @ ''find'' @
                          [CHR 0x27] @ '')''))
      | _ \<Rightarrow> Inl (TypeError ''externalLinks.find is not a function''))"

text \<open>\<open>value || ""\<close>\<close>

definition orEmptyText :: "json option \<Rightarrow> json" where
  "orEmptyText v = (case v of None \<Rightarrow> JString [] | Some x \<Rightarrow> if truthy x then x else JString [])"

text \<open>
  The body of the inner \<open>try\<close> with its \<open>catch\<close>: the values of \<open>externalLinks\<close>,
  \<open>buttonText\<close>, \<open>externalUrl\<close> and \<open>isEnabled\<close> after it. An exception leaves the
  assignments made before it; in particular a parsed value that is no array stays in
  \<open>externalLinks\<close>.
\<close>

definition readExternalLinks :: "Runtime \<Rightarrow> string \<Rightarrow> json \<times> json \<times> json \<times> bool" where
  "readExternalLinks rt v =
     (case rt_parse rt v of
        None \<Rightarrow> (JArray [], JString [], JString [], False)
      | Some externalLinks \<Rightarrow>
          (case findEnabled externalLinks of
             Inl e \<Rightarrow> (externalLinks, JString [], JString [], False)
           | Inr None \<Rightarrow> (externalLinks, JString [], JString [], False)
           | Inr (Some enabledLink) \<Rightarrow>
               if truthy enabledLink then
                 (case getProperty enabledLink ''text'' of
                    Inl e \<Rightarrow> (externalLinks, JString [], JString [], False)
                  | Inr t \<Rightarrow>
                      (case getProperty enabledLink ''url'' of
                         Inl e \<Rightarrow> (externalLinks, orEmptyText t, JString [], False)
                       | Inr u \<Rightarrow> (externalLinks, orEmptyText t, orEmptyText u, True)))
               else (externalLinks, JString [], JString [], False)))"

text \<open>
  \<open>externalLinks.length > 1\<close>, outside the inner \<open>try\<close>. Reading \<open>length\<close> of \<open>null\<close>
  throws. An array and a string have a length; an object has the property only if the
  parsed text gave it one; a number and a boolean have none (\<open>undefined > 1\<close> is false).
\<close>

fun lengthOf :: "json \<Rightarrow> exn + json option" where
  "lengthOf JNull =
     Inl (TypeError (''Cannot read properties of null (reading '' @ [CHR 0x27] @ ''length'' @
                     [CHR 0x27] @ '')''))"
| "lengthOf (JArray xs) = Inr (Some (JNum (of_nat (length xs))))"
| "lengthOf (JString str) = Inr (Some (JNum (of_nat (length str))))"
| "lengthOf (JObject kvs) = Inr (map_of (rev kvs) ''length'')"
| "lengthOf v = Inr None"

definition greaterThanOne :: "(json \<Rightarrow> exn + rat option) \<Rightarrow> json option \<Rightarrow> exn + bool" where
  "greaterThanOne toNumber v =
     (case v of
        None \<Rightarrow> Inr False
      | Some JNull \<Rightarrow> Inr False
      | Some (JBool b) \<Rightarrow> Inr False
      | Some (JNum n) \<Rightarrow> Inr (n > 1)
      | Some x \<Rightarrow>
          (case toNumber x of
             Inl e \<Rightarrow> Inl e
           | Inr None \<Rightarrow> Inr False
           | Inr (Some n) \<Rightarrow> Inr (n > 1)))"

text \<open>The callback of \<open>allProducts.map\<close>; \<open>Inl\<close> is the exception it lets out.\<close>

definition loadProduct :: "Runtime \<Rightarrow> ProductNode \<Rightarrow> exn + Product" where
  "loadProduct rt product =
     (let metafields = orEmpty (pn_metafields_nodes product);
          m = metafieldMap metafields
      in case (if orEmptyString (m ''external_links'') \<noteq> []
               then readExternalLinks rt (orEmptyString (m ''external_links''))
               else (JArray [], JString (orEmptyString (m ''button_text'')),
                     JString (orEmptyString (m ''external_url'')), m ''is_enabled'' = Some ''true'')) of
           (externalLinks, buttonText, externalUrl, isEnabled) \<Rightarrow>
             (case lengthOf externalLinks of
                Inl e \<Rightarrow> Inl e
              | Inr len \<Rightarrow>
                  (case greaterThanOne (rt_toNumber rt) len of
                     Inl e \<Rightarrow> Inl e
                   | Inr hasMultipleLinks \<Rightarrow>
                       Inr \<lparr>p_id = pn_id product, p_title = pn_title product,
                            p_handle = pn_handle product,
                            p_externalUrl = externalUrl, p_buttonText = buttonText,
                            p_isEnabled = isEnabled,
                            p_hideAtc = (m ''hide_atc'' = Some ''true''),
                            p_hasMetafields = (length metafields > 0),
                            p_hasMultipleLinks = hasMultipleLinks,
                            p_externalLinks = externalLinks\<rparr>)))"

text \<open>
  \<^verbatim>\<open>
  let configuredProducts: Product[] = [];
  try {
    ...
    configuredProducts = allProducts.map(...).filter(product => product.hasMetafields);
  } catch (error) { console.error(...) }\<close>
  \<open>map\<close> calls the callback on the products in order and lets its exception out; the
  assignment is then not reached, and the \<open>catch\<close> of the loader leaves
  \<open>configuredProducts\<close> as it was: empty.
\<close>

fun mapProducts :: "(ProductNode \<Rightarrow> exn + Product) \<Rightarrow> ProductNode list \<Rightarrow> exn + Product list" where
  "mapProducts callback [] = Inr []"
| "mapProducts callback (product # products) =
     (case callback product of
        Inl e \<Rightarrow> Inl e
      | Inr productData \<Rightarrow>
          (case mapProducts callback products of
             Inl e \<Rightarrow> Inl e
           | Inr rest \<Rightarrow> Inr (productData # rest)))"

definition configuredProductsOf :: "Runtime \<Rightarrow> ProductNode list \<Rightarrow> Product list" where
  "configuredProductsOf rt allProducts =
     (case mapProducts (loadProduct rt) allProducts of
        Inl e \<Rightarrow> []
      | Inr products \<Rightarrow> filter p_hasMetafields products)"

section \<open>The auto-install heuristic (src/unnamed/part_003)\<close>

text \<open>
  \<open>checkAutoInstallStatus\<close> asks for the app-installation metafield
  \<open>auto_install.block_installed\<close>; any exception makes it answer \<open>false\<close>.
  \<^verbatim>\<open>
  return data.data?.currentAppInstallation?.metafields?.nodes?.length > 0;\<close>
\<close>

definition checkAutoInstallStatus :: "'w admin \<Rightarrow> 'w session \<Rightarrow> bool \<times> 'w session" where
  "checkAutoInstallStatus admin s =
     (case graphql admin QueryAutoInstallSentinel s of
        (Inl e, s1) \<Rightarrow> (False, s1)
      | (Inr d, s1) \<Rightarrow> (length (orEmpty (data_currentAppInstallation_metafields_nodes d)) > 0, s1))"

text \<open>
  \<open>markAutoInstallComplete\<close> sets the sentinel (its value is the current time, which the
  request of the model does not carry) and swallows every exception.
\<close>

definition markAutoInstallComplete :: "'w admin \<Rightarrow> 'w session \<Rightarrow> 'w session" where
  "markAutoInstallComplete admin s = snd (graphql admin MetafieldsSetSentinel s)"

text \<open>
  \<open>autoInstallAppBlock\<close>. Its requests and its result are those of the source. The
  computation on the parsed template (steps 3 to 5: parsing the body, looking for the
  block identifier, choosing the section and the position, serialising again) issues no
  request; it is a parameter of the model, with these outcomes.
\<close>

datatype PatchOutcome =
    InvalidTemplateJson
  | HasOurBlock
  | NoSuitableSection
  | Patched string
  | Threw exn

record InstallResult =
  ir_success :: bool
  ir_status :: string
  ir_message :: string

fun str_includes :: "string \<Rightarrow> string \<Rightarrow> bool" where
  "str_includes [] searchString = (searchString = [])"
| "str_includes (c # cs) searchString = (prefix searchString (c # cs) \<or> str_includes cs searchString)"

definition autoInstallAppBlock ::
  "'w admin \<Rightarrow> (string \<Rightarrow> PatchOutcome) \<Rightarrow> 'w session \<Rightarrow> InstallResult \<times> 'w session" where
  "autoInstallAppBlock admin patchTemplate s =
     (case graphql admin QueryMainThemes s of
        (Inl e, s1) \<Rightarrow> (\<lparr>ir_success = False, ir_status = ''error'', ir_message = exn_message e\<rparr>, s1)
      | (Inr themeData, s1) \<Rightarrow>
          (case orEmpty (data_themes_nodes themeData) of
             [] \<Rightarrow> (\<lparr>ir_success = False, ir_status = ''no_active_theme'',
                      ir_message = ''No active theme found''\<rparr>, s1)
           | activeTheme # otherThemes \<Rightarrow>
               (case graphql admin (QueryThemeFiles (theme_id activeTheme)) s1 of
                  (Inl e, s2) \<Rightarrow>
                    (\<lparr>ir_success = False, ir_status = ''error'', ir_message = exn_message e\<rparr>, s2)
                | (Inr filesData, s2) \<Rightarrow>
                    (case data_theme_files_nodes filesData of
                       None \<Rightarrow> (\<lparr>ir_success = False, ir_status = ''no_theme_files'',
                                  ir_message = ''Could not read theme files''\<rparr>, s2)
                     | Some files \<Rightarrow>
                         (case filter (\<lambda>file. str_includes (tf_filename file) ''product'' \<and>
                                              str_includes (tf_filename file) ''.json'') files of
                            [] \<Rightarrow> (\<lparr>ir_success = False, ir_status = ''no_product_template'',
                                     ir_message = ''No product template found''\<rparr>, s2)
                          | productTemplate # otherTemplates \<Rightarrow>
                              (case patchTemplate (tf_body productTemplate) of
                                 InvalidTemplateJson \<Rightarrow>
                                   (\<lparr>ir_success = False, ir_status = ''invalid_template_json'',
                                     ir_message = ''Could not parse template JSON''\<rparr>, s2)
                               | HasOurBlock \<Rightarrow>
                                   (\<lparr>ir_success = True, ir_status = ''already_installed'',
                                     ir_message = ''Block already exists in template''\<rparr>,
                                    markAutoInstallComplete admin s2)
                               | NoSuitableSection \<Rightarrow>
                                   (\<lparr>ir_success = False, ir_status = ''no_suitable_section'',
                                     ir_message = ''Could not find suitable section to add block''\<rparr>, s2)
                               | Threw e \<Rightarrow>
                                   (\<lparr>ir_success = False, ir_status = ''error'',
                                     ir_message = exn_message e\<rparr>, s2)
                               | Patched newBody \<Rightarrow>
                                   (case graphql admin
                                           (ThemeFilesUpsert (theme_id activeTheme)
                                              (tf_filename productTemplate) newBody) s2 of
                                      (Inl e, s3) \<Rightarrow>
                                        (\<lparr>ir_success = False, ir_status = ''error'',
                                          ir_message = exn_message e\<rparr>, s3)
                                    | (Inr updateData, s3) \<Rightarrow>
                                        (case orEmpty (data_themeFilesUpsert_userErrors updateData) of
                                           m # ms \<Rightarrow>
                                             (\<lparr>ir_success = False, ir_status = ''update_failed'',
                                               ir_message = m\<rparr>, s3)
                                         | [] \<Rightarrow>
                                             (\<lparr>ir_success = True, ir_status = ''installed'',
                                               ir_message = ''App block successfully added to theme''\<rparr>,
                                              markAutoInstallComplete admin s3)))))))))"

text \<open>
  The auto-install section of \<open>loader\<close>. Neither helper lets an exception out, so the
  \<open>catch\<close> around the section has nothing to catch.
  \<^verbatim>\<open>
  let blockAutoInstalled = false;
  let blockInstallationStatus = "not_attempted";
  const autoInstallAttempted = await checkAutoInstallStatus(admin, session.shop);
  if (!autoInstallAttempted && configuredProducts.length > 0) {
    const installResult = await autoInstallAppBlock(admin, session.shop);
    blockAutoInstalled = installResult.success;
    blockInstallationStatus = installResult.status;
  } else if (autoInstallAttempted) {
    blockInstallationStatus = "previously_attempted";
  }\<close>
\<close>

definition loader_autoInstall ::
  "'w admin \<Rightarrow> (string \<Rightarrow> PatchOutcome) \<Rightarrow> Product list \<Rightarrow> 'w session \<Rightarrow> (bool \<times> string) \<times> 'w session" where
  "loader_autoInstall admin patchTemplate configuredProducts s =
     (case checkAutoInstallStatus admin s of
        (autoInstallAttempted, s1) \<Rightarrow>
          if \<not> autoInstallAttempted \<and> length configuredProducts > 0 then
            (case autoInstallAppBlock admin patchTemplate s1 of
               (installResult, s2) \<Rightarrow> ((ir_success installResult, ir_status installResult), s2))
          else if autoInstallAttempted then ((False, ''previously_attempted''), s1)
          else ((False, ''not_attempted''), s1))"

section \<open>The storefront script (src/unnamed/part_000)\<close>

subsection \<open>The page\<close>

text \<open>
  The browser, as far as the script uses it: \<open>JSON.parse\<close> (\<open>None\<close> for a \<open>SyntaxError\<close>),
  \<open>document.querySelector\<close> (the attributes of the first match, \<open>None\<close> for no match, or
  the exception for a selector it rejects) and \<open>Number\<close> on strings (\<open>None\<close> for \<open>NaN\<close>).
  They are parameters of the model, fixed during a call.
\<close>

record Browser =
  env_parse :: "string \<Rightarrow> json option"
  env_querySelector :: "string \<Rightarrow> exn + (string \<times> string) list option"
  env_toNumber :: "string \<Rightarrow> rat option"

subsection \<open>Block settings\<close>

text \<open>
  \<^verbatim>\<open>
  getBlockSettings: function (container) {
    if (!container) return {};
    const settings = {};
    Array.from(container.attributes).forEach(attr => {
      if (attr.name.startsWith('data-block-')) {
        const settingName = attr.name.replace('data-block-', '').replace(/-/g, '_');
        let value = attr.value;
        if (value === 'true') value = true;
        else if (value === 'false') value = false;
        else if (!isNaN(value) && value !== '') value = Number(value);
        settings[settingName] = value;
      }
    });
    return settings;
  }\<close>
\<close>

datatype setting = SBool bool | SNum rat | SString string

fun truthySetting :: "setting \<Rightarrow> bool" where
  "truthySetting (SBool b) = b"
| "truthySetting (SNum n) = (n \<noteq> 0)"
| "truthySetting (SString str) = (str \<noteq> [])"

definition settingValue :: "(string \<Rightarrow> rat option) \<Rightarrow> string \<Rightarrow> setting" where
  "settingValue toNumber v =
     (if v = ''true'' then SBool True
      else if v = ''false'' then SBool False
      else (case toNumber v of
              None \<Rightarrow> SString v
            | Some n \<Rightarrow> if v \<noteq> [] then SNum n else SString v))"

definition settingName :: "string \<Rightarrow> string" where
  "settingName name = map (\<lambda>c. if c = CHR ''-'' then CHR ''_'' else c) (drop (length ''data-block-'') name)"

definition getBlockSettings ::
  "(string \<Rightarrow> rat option) \<Rightarrow> (string \<times> string) list option \<Rightarrow> string \<Rightarrow> setting option" where
  "getBlockSettings toNumber container =
     (case container of
        None \<Rightarrow> Map.empty
      | Some attributes \<Rightarrow>
          foldl (\<lambda>settings attr.
                   if prefix ''data-block-'' (fst attr)
                   then settings(settingName (fst attr) \<mapsto> settingValue toNumber (snd attr))
                   else settings)
            Map.empty attributes)"

subsection \<open>Buttons\<close>

text \<open>
  The elements the script appends to the target: buttons, and at most one tracking
  notice (a \<open>small\<close> element). A button keeps the values the script passes to
  \<open>setAttribute\<close> and \<open>textContent\<close>, before the DOM turns them into text.
\<close>

record Button =
  className :: string
  data_external_url :: "json option"
  data_button_index :: nat
  data_product_id :: "string option"
  textContent :: json

datatype Child = ButtonEl Button | NoticeEl setting

fun replaceFirst :: "char \<Rightarrow> char \<Rightarrow> string \<Rightarrow> string" where
  "replaceFirst a b [] = []"
| "replaceFirst a b (c # cs) = (if c = a then b # cs else c # replaceFirst a b cs)"

text \<open>\<^verbatim>\<open>`[data-product-id="${productId}"]`\<close>, where \<open>null\<close> prints as \<open>null\<close>.\<close>

definition productSelector :: "string option \<Rightarrow> string" where
  "productSelector productId =
     ''[data-product-id='' @ [CHR 0x22] @ (case productId of None \<Rightarrow> ''null'' | Some p \<Rightarrow> p) @
     [CHR 0x22] @ '']''"

text \<open>
  \<open>createButton\<close>: the selector may be rejected, and \<open>preset.replace\<close> is a function only
  when the preset is a string.
  \<^verbatim>\<open>
  const container = document.querySelector(`[data-product-id="${productId}"]`);
  const blockSettings = this.getBlockSettings(container);
  const preset = blockSettings.button_preset || 'primary_medium';
  button.className += ' preset-' + preset.replace('_', '-');
  ...
  textSpan.textContent = linkData.text || 'External Link';\<close>
\<close>

definition createButton :: "Browser \<Rightarrow> json \<Rightarrow> nat \<Rightarrow> string option \<Rightarrow> exn + Button" where
  "createButton env linkData index productId =
     (case getProperty linkData ''url'' of
        Inl e \<Rightarrow> Inl e
      | Inr url \<Rightarrow>
          (case env_querySelector env (productSelector productId) of
             Inl e \<Rightarrow> Inl e
           | Inr container \<Rightarrow>
               (let blockSettings = getBlockSettings (env_toNumber env) container;
                    preset = (case blockSettings ''button_preset'' of
                                None \<Rightarrow> SString ''primary_medium''
                              | Some v \<Rightarrow> if truthySetting v then v else SString ''primary_medium'')
                in case preset of
                     SString p \<Rightarrow>
                       (case getProperty linkData ''text'' of
                          Inl e \<Rightarrow> Inl e
                        | Inr t \<Rightarrow>
                            Inr \<lparr>className = ''external-link-button'' @ '' preset-'' @
                                               replaceFirst (CHR ''_'') (CHR ''-'') p,
                                 data_external_url = url, data_button_index = index,
                                 data_product_id = productId,
                                 textContent =
                                   (case t of
                                      None \<Rightarrow> JString ''External Link''
                                    | Some label \<Rightarrow>
                                        if truthy label then label else JString ''External Link'')\<rparr>)
                   | SBool b \<Rightarrow> Inl (TypeError ''preset.replace is not a function'')
                   | SNum n \<Rightarrow> Inl (TypeError ''preset.replace is not a function''))))"

subsection \<open>Selecting the entries\<close>

text \<open>
  \<^verbatim>\<open>
  const enabledLinks = externalLinks.filter(link =>
    link.enabled && link.url && link.url.trim() !== '');\<close>
  The callback throws on a \<open>null\<close> entry, and on an entry whose \<open>enabled\<close> is truthy and
  whose \<open>url\<close> is truthy but not a string (\<open>trim\<close> is then not a function). \<open>filter\<close>
  itself is a function only of arrays.
\<close>

definition isEnabledLink :: "json \<Rightarrow> exn + bool" where
  "isEnabledLink link =
     (case getProperty link ''enabled'' of
        Inl e \<Rightarrow> Inl e
      | Inr enabled \<Rightarrow>
          if \<not> truthyOrUndefined enabled then Inr False
          else
            (case getProperty link ''url'' of
               Inl e \<Rightarrow> Inl e
             | Inr url \<Rightarrow>
                 if \<not> truthyOrUndefined url then Inr False
                 else
                   (case url of
                      Some (JString u) \<Rightarrow> Inr (trim u \<noteq> [])
                    | _ \<Rightarrow> Inl (TypeError ''link.url.trim is not a function''))))"

fun filterLinks :: "json list \<Rightarrow> exn + json list" where
  "filterLinks [] = Inr []"
| "filterLinks (link # links) =
     (case isEnabledLink link of
        Inl e \<Rightarrow> Inl e
      | Inr keep \<Rightarrow>
          (case filterLinks links of
             Inl e \<Rightarrow> Inl e
           | Inr kept \<Rightarrow> Inr (if keep then link # kept else kept)))"

definition enabledLinksOf :: "json \<Rightarrow> exn + json list" where
  "enabledLinksOf externalLinks =
     (case externalLinks of
        JArray links \<Rightarrow> filterLinks links
      | _ \<Rightarrow> Inl (TypeError ''externalLinks.filter is not a function''))"

subsection \<open>Parsing the attribute\<close>

text \<open>
  The fallback of the parse step: HTML entities are decoded, \<open>=>\<close> becomes \<open>:\<close>, and a
  bare key after \<open>{\<close> or \<open>,\<close> is quoted. The replacements run left to right and do not
  overlap; the counter is the number of characters still covered by the last match.
  \<^verbatim>\<open>
  let decoded = externalLinksData
    .replace(/&quot;/g, '"').replace(/&#39;/g, "'").replace(/&amp;/g, '&')
    .replace(/&lt;/g, '<').replace(/&gt;/g, '>');
  decoded = decoded
    .replace(/=>/g, ':')
    .replace(/([{,]\s*)(\w+):/g, '$1"$2":');\<close>
  In the last pattern the white space and the word are matched greedily; since no
  character is both, and \<open>:\<close> is no word character, backtracking finds no other match.
\<close>

fun replaceAllFrom :: "string \<Rightarrow> string \<Rightarrow> nat \<Rightarrow> string \<Rightarrow> string" where
  "replaceAllFrom pat rep covered [] = []"
| "replaceAllFrom pat rep (Suc covered) (c # cs) = replaceAllFrom pat rep covered cs"
| "replaceAllFrom pat rep 0 (c # cs) =
     (if prefix pat (c # cs) then rep @ replaceAllFrom pat rep (length pat - 1) cs
      else c # replaceAllFrom pat rep 0 cs)"

definition replaceAll :: "string \<Rightarrow> string \<Rightarrow> string \<Rightarrow> string" where
  "replaceAll pat rep str = replaceAllFrom pat rep 0 str"

definition isWordChar :: "char \<Rightarrow> bool" where
  "isWordChar c =
     (let n = (of_char c :: nat)
      in (48 \<le> n \<and> n \<le> 57) \<or> (65 \<le> n \<and> n \<le> 90) \<or> n = 95 \<or> (97 \<le> n \<and> n \<le> 122))"

fun quoteKeysFrom :: "nat \<Rightarrow> string \<Rightarrow> string" where
  "quoteKeysFrom covered [] = []"
| "quoteKeysFrom (Suc covered) (c # cs) = quoteKeysFrom covered cs"
| "quoteKeysFrom 0 (c # cs) =
     (let spaces = takeWhile isWhiteSpace cs;
          word = takeWhile isWordChar (dropWhile isWhiteSpace cs);
          after = dropWhile isWordChar (dropWhile isWhiteSpace cs)
      in if (c = CHR ''{'' \<or> c = CHR '','') \<and> word \<noteq> [] \<and> prefix '':'' after
         then c # spaces @ [CHR 0x22] @ word @ [CHR 0x22] @ '':'' @
              quoteKeysFrom (length spaces + length word + 1) cs
         else c # quoteKeysFrom 0 cs)"

definition decoded :: "string \<Rightarrow> string" where
  "decoded externalLinksData =
     quoteKeysFrom 0
       (replaceAll ''=>'' '':''
          (replaceAll ''&gt;'' ''>''
             (replaceAll ''&lt;'' ''<''
                (replaceAll ''&amp;'' ''&''
                   (replaceAll ''&#39;'' [CHR 0x27]
                      (replaceAll ''&quot;'' [CHR 0x22] externalLinksData))))))"

text \<open>
  \<^verbatim>\<open>
  try { externalLinks = JSON.parse(externalLinksData); }
  catch (parseError) {
    try { ...; externalLinks = JSON.parse(decoded); }
    catch (secondParseError) { container.innerHTML = ''; return; }
  }\<close>
\<close>

definition parseExternalLinks :: "Browser \<Rightarrow> string \<Rightarrow> json option" where
  "parseExternalLinks env externalLinksData =
     (case env_parse env externalLinksData of
        Some externalLinks \<Rightarrow> Some externalLinks
      | None \<Rightarrow> env_parse env (decoded externalLinksData))"

subsection \<open>Rendering\<close>

text \<open>
  The \<open>forEach\<close> that creates and appends the buttons; an exception leaves the buttons
  appended so far.
\<close>

fun appendButtons :: "Browser \<Rightarrow> string option \<Rightarrow> nat \<Rightarrow> json list \<Rightarrow> Child list \<Rightarrow> exn option \<times> Child list" where
  "appendButtons env productId index [] children = (None, children)"
| "appendButtons env productId index (link # links) children =
     (case createButton env link index productId of
        Inl e \<Rightarrow> (Some e, children)
      | Inr button \<Rightarrow> appendButtons env productId (Suc index) links (children @ [ButtonEl button]))"

text \<open>
  What follows a successful parse, on the container that was just cleared: the filter,
  the block settings, the buttons, then the tracking notice.
  \<^verbatim>\<open>
  if (blockSettings.show_tracking_notice && blockSettings.tracking_notice_text) { ... }\<close>
\<close>

definition renderParsed :: "Browser \<Rightarrow> json \<Rightarrow> string option \<Rightarrow> exn option \<times> Child list" where
  "renderParsed env externalLinks productId =
     (case enabledLinksOf externalLinks of
        Inl e \<Rightarrow> (Some e, [])
      | Inr enabledLinks \<Rightarrow>
          if length enabledLinks = 0 then (None, [])
          else
            (case env_querySelector env (productSelector productId) of
               Inl e \<Rightarrow> (Some e, [])
             | Inr containerElement \<Rightarrow>
                 (let blockSettings = getBlockSettings (env_toNumber env) containerElement
                  in case appendButtons env productId 0 enabledLinks [] of
                       (Some e, children) \<Rightarrow> (Some e, children)
                     | (None, children) \<Rightarrow>
                         (case blockSettings ''show_tracking_notice'' of
                            None \<Rightarrow> (None, children)
                          | Some shown \<Rightarrow>
                              if \<not> truthySetting shown then (None, children)
                              else
                                (case blockSettings ''tracking_notice_text'' of
                                   None \<Rightarrow> (None, children)
                                 | Some noticeText \<Rightarrow>
                                     if truthySetting noticeText
                                     then (None, children @ [NoticeEl noticeText])
                                     else (None, children))))))"

text \<open>
  The body of the \<open>try\<close> of \<open>renderExternalButtons\<close>, on the children of the container:
  the exception that ends it, if any, and the children it leaves. A value that is not a
  string (\<open>null\<close> here) returns at once.
\<close>

definition renderExternalButtons_try ::
  "Browser \<Rightarrow> Child list \<Rightarrow> string option \<Rightarrow> string option \<Rightarrow> exn option \<times> Child list" where
  "renderExternalButtons_try env children externalLinksData productId =
     (case externalLinksData of
        None \<Rightarrow> (None, children)
      | Some d \<Rightarrow>
          if d = [] \<or> trim d = [] \<or> d = ''[]'' then (None, [])
          else
            (case parseExternalLinks env d of
               None \<Rightarrow> (None, [])
             | Some externalLinks \<Rightarrow> renderParsed env externalLinks productId))"

text \<open>\<open>renderExternalButtons\<close>: the \<open>catch\<close> drops the exception (\<open>// Silent fail\<close>).\<close>

definition renderExternalButtons ::
  "Browser \<Rightarrow> Child list \<Rightarrow> string option \<Rightarrow> string option \<Rightarrow> Child list" where
  "renderExternalButtons env children externalLinksData productId =
     snd (renderExternalButtons_try env children externalLinksData productId)"

definition buttonsOf :: "Child list \<Rightarrow> Button list" where
  "buttonsOf children = concat (map (\<lambda>c. case c of ButtonEl b \<Rightarrow> [b] | NoticeEl n \<Rightarrow> []) children)"

subsection \<open>Initialisation\<close>

text \<open>
  A container of the page: its attributes, and the children of the element that
  \<^verbatim>\<open>container.querySelector(`#external-buttons-${productId}`)\<close> finds (\<open>None\<close> when there
  is none, or when the selector is rejected: in both cases nothing is rendered).
  \<open>initHideATC\<close> works on the add-to-cart elements of the rest of the page, with timers;
  it is kept as an opaque transformer of that part of the page, applied to the product
  id and the selector override. It catches its own exceptions.
\<close>

record Container =
  attributes :: "(string \<times> string) list"
  targetDiv :: "Child list option"

record 'p Document =
  containers :: "Container list"
  page :: 'p

definition getAttribute :: "Container \<Rightarrow> string \<Rightarrow> string option" where
  "getAttribute container name = map_of (attributes container) name"

text \<open>
  One round of the \<open>forEach\<close> of \<open>init\<close>:
  \<^verbatim>\<open>
  if (hideAtc) { this.initHideATC({ productId, customSelector: atcOverrideSelector, ... }); }
  if (externalLinksData && externalLinksData.trim() !== '' && externalLinksData !== '[]') {
    const targetDiv = container.querySelector(`#external-buttons-${productId}`);
    if (targetDiv) { this.renderExternalButtons(targetDiv, externalLinksData, productId); }
  }\<close>
\<close>

definition hasLinkData :: "Container \<Rightarrow> bool" where
  "hasLinkData container =
     (case getAttribute container ''data-external-links'' of
        None \<Rightarrow> False
      | Some d \<Rightarrow> d \<noteq> [] \<and> trim d \<noteq> [] \<and> d \<noteq> ''[]'')"

definition renderContainer :: "Browser \<Rightarrow> Container \<Rightarrow> Container" where
  "renderContainer env container =
     (if hasLinkData container then
        (case targetDiv container of
           None \<Rightarrow> container
         | Some children \<Rightarrow>
             container\<lparr>targetDiv :=
               Some (renderExternalButtons env children
                       (getAttribute container ''data-external-links'')
                       (getAttribute container ''data-product-id''))\<rparr>)
      else container)"

definition initContainer ::
  "Browser \<Rightarrow> (string option \<Rightarrow> string option \<Rightarrow> 'p \<Rightarrow> 'p) \<Rightarrow> 'p Document \<Rightarrow> Container \<Rightarrow> 'p Document" where
  "initContainer env initHideATC doc container =
     \<lparr>containers = containers doc @ [renderContainer env container],
      page = (if getAttribute container ''data-hide-atc'' = Some ''true''
              then initHideATC (getAttribute container ''data-product-id'')
                     (getAttribute container ''data-atc-override-selector'') (page doc)
              else page doc)\<rparr>"

text \<open>\<open>init\<close>: every container of the page, in document order.\<close>

definition init ::
  "Browser \<Rightarrow> (string option \<Rightarrow> string option \<Rightarrow> 'p \<Rightarrow> 'p) \<Rightarrow> 'p Document \<Rightarrow> 'p Document" where
  "init env initHideATC doc =
     foldl (initContainer env initHideATC) \<lparr>containers = [], page = page doc\<rparr> (containers doc)"

subsection \<open>The entries that are shown, in the words of the specification\<close>

text \<open>
  An entry is shown when it is an object whose \<open>enabled\<close> is truthy and whose \<open>url\<close> is a
  string that is not blank after trimming. An entry lets the filter run when it is not
  \<open>null\<close> and, in case its \<open>enabled\<close> and \<open>url\<close> are both truthy, its \<open>url\<close> is a string.
\<close>

fun propertyOf :: "json \<Rightarrow> string \<Rightarrow> json option" where
  "propertyOf (JObject kvs) name = map_of (rev kvs) name"
| "propertyOf v name = None"

definition isNonBlankString :: "json option \<Rightarrow> bool" where
  "isNonBlankString v = (case v of Some (JString u) \<Rightarrow> trim u \<noteq> [] | _ \<Rightarrow> False)"

definition isString :: "json option \<Rightarrow> bool" where
  "isString v = (case v of Some (JString u) \<Rightarrow> True | _ \<Rightarrow> False)"

definition entryShown :: "json \<Rightarrow> bool" where
  "entryShown link =
     (truthyOrUndefined (propertyOf link ''enabled'') \<and> isNonBlankString (propertyOf link ''url''))"

definition entryFiltered :: "json \<Rightarrow> bool" where
  "entryFiltered link =
     (link \<noteq> JNull \<and>
      (if truthyOrUndefined (propertyOf link ''enabled'') \<and> truthyOrUndefined (propertyOf link ''url'')
       then isString (propertyOf link ''url'') else True))"

text \<open>The strict reading: \<open>enabled === true\<close>.\<close>

definition entryStrictlyEnabled :: "json \<Rightarrow> bool" where
  "entryStrictlyEnabled link =
     (propertyOf link ''enabled'' = Some (JBool True) \<and> isNonBlankString (propertyOf link ''url''))"

definition labelOf :: "json \<Rightarrow> json" where
  "labelOf link =
     (case propertyOf link ''text'' of
        None \<Rightarrow> JString ''External Link''
      | Some label \<Rightarrow> if truthy label then label else JString ''External Link'')"

section \<open>Example inputs\<close>

definition product1 :: string where
  "product1 = ''gid://shopify/Product/1''"

definition linkA :: ExternalLink where
  "linkA = \<lparr>link_text = ''A'', link_url = ''https://a.com'', link_enabled = True\<rparr>"

definition linkBlank :: ExternalLink where
  "linkBlank = \<lparr>link_text = ''B'', link_url = ''  '', link_enabled = True\<rparr>"

definition linkC :: ExternalLink where
  "linkC = \<lparr>link_text = ''C'', link_url = ''https://c.com'', link_enabled = False\<rparr>"

definition editing :: "ExternalLink list \<Rightarrow> bool \<Rightarrow> ExpandedProduct" where
  "editing links hide =
     \<lparr>ep_id = product1, ep_isExpanded = True, ep_isEditing = True, ep_externalLinks = links,
      ep_hideAtc = hide, ep_isSaving = False\<rparr>"

definition shop_unconfigured :: Shop where
  "shop_unconfigured = \<lparr>shop_metafields = [], shop_sentinel = [], shop_themes = [], shop_files = []\<rparr>"

definition shop_hidden_atc :: Shop where
  "shop_hidden_atc =
     \<lparr>shop_metafields =
        [(product1, \<lparr>mf_id = ''gid://shopify/Metafield/11'', mf_key = ''external_links'',
                      mf_value = ''[]'', mf_type = ''json''\<rparr>),
         (product1, \<lparr>mf_id = ''gid://shopify/Metafield/12'', mf_key = ''hide_atc'',
                      mf_value = ''true'', mf_type = ''single_line_text_field''\<rparr>)],
      shop_sentinel = [], shop_themes = [], shop_files = []\<rparr>"

text \<open>A remote that answers every delete mutation with a user error and deletes nothing.\<close>

definition rejecting_admin :: "Shop admin" where
  "rejecting_admin req shop =
     (case req of
        MetafieldsDelete ids \<Rightarrow>
          (Inr (emptyResponse\<lparr>data_metafieldsDelete_userErrors := Some [''Access denied'']\<rparr>), shop)
      | _ \<Rightarrow> shop_admin req shop)"

text \<open>The form of the older route for a product with no link rows and the box unticked.\<close>

definition form_no_links :: FormData where
  "form_no_links =
     [''actionType'' \<mapsto> ''save'', ''productId'' \<mapsto> product1, ''linkCount'' \<mapsto> ''0'',
      ''hideAtc_hidden'' \<mapsto> ''false'']"

definition form_delete :: FormData where
  "form_delete = [''actionType'' \<mapsto> ''delete'', ''productId'' \<mapsto> product1]"

text \<open>
  A product that carries only the three legacy keys, one saved in the array form, and one
  whose \<open>external_links\<close> value is the text \<open>null\<close>.
\<close>

definition legacy_product :: ProductNode where
  "legacy_product =
     \<lparr>pn_id = product1, pn_title = ''Mug'', pn_handle = ''mug'',
      pn_metafields_nodes = Some
        [\<lparr>mf_id = ''gid://shopify/Metafield/1'', mf_key = ''external_url'',
          mf_value = ''https://old.example/mug'', mf_type = ''single_line_text_field''\<rparr>,
         \<lparr>mf_id = ''gid://shopify/Metafield/2'', mf_key = ''button_text'',
          mf_value = ''Buy'', mf_type = ''single_line_text_field''\<rparr>,
         \<lparr>mf_id = ''gid://shopify/Metafield/3'', mf_key = ''is_enabled'',
          mf_value = ''true'', mf_type = ''single_line_text_field''\<rparr>]\<rparr>"

definition array_product :: ProductNode where
  "array_product =
     \<lparr>pn_id = product1, pn_title = ''Mug'', pn_handle = ''mug'',
      pn_metafields_nodes = Some
        [\<lparr>mf_id = ''gid://shopify/Metafield/1'', mf_key = ''external_url'',
          mf_value = ''https://old.example/mug'', mf_type = ''single_line_text_field''\<rparr>,
         \<lparr>mf_id = ''gid://shopify/Metafield/4'', mf_key = ''external_links'',
          mf_value = JSON_stringify [linkC, linkA], mf_type = ''json''\<rparr>]\<rparr>"

definition null_product :: ProductNode where
  "null_product =
     \<lparr>pn_id = ''gid://shopify/Product/2'', pn_title = ''Cup'', pn_handle = ''cup'',
      pn_metafields_nodes = Some
        [\<lparr>mf_id = ''gid://shopify/Metafield/5'', mf_key = ''external_links'',
          mf_value = ''null'', mf_type = ''json''\<rparr>,
         \<lparr>mf_id = ''gid://shopify/Metafield/6'', mf_key = ''external_url'',
          mf_value = ''https://old.example/cup'', mf_type = ''single_line_text_field''\<rparr>]\<rparr>"

text \<open>What the loader shows for the product with the legacy keys.\<close>

definition mug_loaded :: Product where
  "mug_loaded =
     \<lparr>p_id = product1, p_title = ''Mug'', p_handle = ''mug'',
      p_externalUrl = JString ''https://old.example/mug'', p_buttonText = JString ''Buy'',
      p_isEnabled = True, p_hideAtc = False, p_hasMetafields = True, p_hasMultipleLinks = False,
      p_externalLinks = JArray []\<rparr>"

text \<open>The object of a link, with the properties in the order of the page's state.\<close>

definition jsonOfLink :: "ExternalLink \<Rightarrow> json" where
  "jsonOfLink link =
     JObject [(''url'', JString (link_url link)), (''text'', JString (link_text link)),
              (''enabled'', JBool (link_enabled link))]"

text \<open>
  A run time whose \<open>JSON.parse\<close> knows the stored array of the examples and the text
  \<open>null\<close>, and rejects every other text.
\<close>

definition runtime_example :: Runtime where
  "runtime_example =
     \<lparr>rt_parse = (\<lambda>v. if v = JSON_stringify [linkC, linkA]
                       then Some (JArray [jsonOfLink linkC, jsonOfLink linkA])
                       else if v = ''null'' then Some JNull
                       else None),
      rt_toNumber = (\<lambda>v. Inr None)\<rparr>"

text \<open>
  A shop with a main theme and no sentinel yet, whose product template already carries
  the block, and a template computation that knows this template and the empty object
  (it takes every other body as unparseable).
\<close>

definition template_with_block :: string where
  "template_with_block =
     ''{'' @ [CHR 0x22] @ ''sections'' @ [CHR 0x22] @ '':{'' @ [CHR 0x22] @ ''main'' @ [CHR 0x22] @
     '':{'' @ [CHR 0x22] @ ''blocks'' @ [CHR 0x22] @ '':{'' @ [CHR 0x22] @ ''b'' @ [CHR 0x22] @
     '':{'' @ [CHR 0x22] @ ''type'' @ [CHR 0x22] @ '':'' @ [CHR 0x22] @
     ''b47fbbd7a2798bdefa342301971e612b/external-button-block'' @ [CHR 0x22] @ ''}}}}}''"

definition shop_with_theme :: Shop where
  "shop_with_theme =
     \<lparr>shop_metafields = [], shop_sentinel = [],
      shop_themes = [\<lparr>theme_id = ''gid://shopify/Theme/7'', theme_name = ''Dawn'', theme_role = ''MAIN''\<rparr>],
      shop_files = [\<lparr>tf_filename = ''templates/product.json'', tf_body = template_with_block\<rparr>]\<rparr>"

definition patch_example :: "string \<Rightarrow> PatchOutcome" where
  "patch_example templateBody =
     (if templateBody = template_with_block then HasOurBlock
      else if templateBody = ''{}'' then NoSuitableSection
      else InvalidTemplateJson)"

text \<open>
  Storefront examples: a browser whose \<open>JSON.parse\<close> knows the serialised arrays of the
  examples, a payload in the legacy serialisation, and a counter standing for the
  add-to-cart hiding.
\<close>

definition browser_example :: Browser where
  "browser_example =
     \<lparr>env_parse = (\<lambda>d. if d = JSON_stringify [linkA] then Some (JArray [jsonOfLink linkA])
                        else if d = JSON_stringify [linkC] then Some (JArray [jsonOfLink linkC])
                        else None),
      env_querySelector = (\<lambda>selector. Inr None),
      env_toNumber = (\<lambda>v. None)\<rparr>"

definition legacy_payload :: string where
  "legacy_payload = ''[{url=>&quot;https://a.com&quot;,text=>&quot;A&quot;,enabled=>true}]''"

definition entry_enabled_text :: json where
  "entry_enabled_text =
     JObject [(''url'', JString ''https://a.com''), (''text'', JString ''A''),
              (''enabled'', JString ''false'')]"

definition container_example :: Container where
  "container_example =
     \<lparr>attributes = [(''data-product-id'', ''1''), (''data-hide-atc'', ''true''),
                     (''data-external-links'', JSON_stringify [linkA])],
      targetDiv = Some []\<rparr>"

definition count_hide :: "string option \<Rightarrow> string option \<Rightarrow> nat \<Rightarrow> nat" where
  "count_hide productId customSelector n = Suc n"

definition button_A :: Button where
  "button_A =
     \<lparr>className = ''external-link-button preset-primary-medium'',
      data_external_url = Some (JString ''https://a.com''), data_button_index = 0,
      data_product_id = Some ''1'', textContent = JString ''A''\<rparr>"

section \<open>Normalisation\<close>

lemma trim_Nil [simp]: "trim [] = []"
  by (simp add: trim_def)

lemma isEmptyLink_iff: "isEmptyLink link \<longleftrightarrow> trim (link_url link) = []"
  by (auto simp: isEmptyLink_def)

text \<open>
  Claim C9. \<open>normalize_links\<close> keeps, in order and unchanged, exactly the entries whose url is
  not empty after trimming: the result is the sublist of those entries, so the dropped
  entries are the blank ones and no field of a kept entry differs. Hence a second
  application changes nothing, and every entry of the result has a non-blank url.
\<close>

theorem normalize_drops_blank_only:
  "normalize_links L = filter (\<lambda>link. trim (link_url link) \<noteq> []) L
   \<and> subseq (normalize_links L) L
   \<and> normalize_links (normalize_links L) = normalize_links L
   \<and> (\<forall>link \<in> set (normalize_links L). trim (link_url link) \<noteq> [])"
  by (auto simp: normalize_links_def isEmptyLink_iff)

theorem normalize_drops_blank_only_witness:
  "normalize_links
     [\<lparr>link_text = ''A'', link_url = ''https://a.com'', link_enabled = True\<rparr>,
      \<lparr>link_text = ''B'', link_url = ''  '', link_enabled = True\<rparr>,
      \<lparr>link_text = ''C'', link_url = ''https://c.com'', link_enabled = False\<rparr>]
   = [\<lparr>link_text = ''A'', link_url = ''https://a.com'', link_enabled = True\<rparr>,
      \<lparr>link_text = ''C'', link_url = ''https://c.com'', link_enabled = False\<rparr>]
   \<and> trim ''https://a.com'' \<noteq> [] \<and> trim ''https://c.com'' \<noteq> []"
  using normalize_drops_blank_only
    [of "[\<lparr>link_text = ''A'', link_url = ''https://a.com'', link_enabled = True\<rparr>,
          \<lparr>link_text = ''B'', link_url = ''  '', link_enabled = True\<rparr>,
          \<lparr>link_text = ''C'', link_url = ''https://c.com'', link_enabled = False\<rparr>]"]
  by (simp add: trim_def isWhiteSpace_def)

section \<open>The requests of a save\<close>

lemma productUpdateStep_issued:
  "snd (snd (productUpdateStep admin productId inputs s)) =
     (if inputs = [] then snd s else snd s @ [ProductUpdate productId inputs])"
  by (simp add: productUpdateStep_def graphql_def split: prod.splits sum.splits option.splits)

lemma metafieldsToSave_nonempty [simp]: "metafieldsToSave hideAtc links existing \<noteq> []"
  by (simp add: metafieldsToSave_def)

lemma action_save_issued:
  "snd (snd (action_save admin formData productId (w, reqs))) =
     (case admin (QueryProductMetafields productId) w of
        (Inl e, w1) \<Rightarrow> reqs @ [QueryProductMetafields productId]
      | (Inr existingData, w1) \<Rightarrow>
          (let existingMetafields = orEmpty (data_product_metafields_nodes existingData);
               toDelete = metafieldsToDelete (formData ''hideAtc'' = Some ''on'') existingMetafields;
               ids = map (\<lambda>mf. metafieldIdentifier productId (mf_key mf)) toDelete;
               inputs = map mutationInput
                 (metafieldsToSave (formData ''hideAtc'' = Some ''on'') (formLinks formData) existingMetafields)
           in if toDelete = [] then reqs @ [QueryProductMetafields productId, ProductUpdate productId inputs]
              else if isl (fst (admin (MetafieldsDelete ids) w1))
              then reqs @ [QueryProductMetafields productId, MetafieldsDelete ids]
              else reqs @ [QueryProductMetafields productId, MetafieldsDelete ids, ProductUpdate productId inputs]))"
  by (auto simp: action_save_def graphql_def productUpdateStep_issued Let_def
           split: prod.splits sum.splits)

lemma action_is_save:
  "formData ''actionType'' = Some ''save'' \<Longrightarrow> formData ''productId'' = Some productId \<Longrightarrow> productId \<noteq> [] \<Longrightarrow>
   snd (snd (action admin formData s)) = snd (snd (action_save admin formData productId s))"
  by (simp add: action_def getOrEmpty_def Let_def split: prod.splits sum.splits)

lemma hide_atc_saved:
  "\<exists>i\<in>set (map mutationInput (metafieldsToSave True links existing)).
      input_key i = ''hide_atc'' \<and> input_value i = ''true'' \<and> input_namespace i = METAFIELD_NAMESPACE"
  by (simp add: metafieldsToSave_def mutationInput_def)

lemma hide_atc_not_saved:
  "\<forall>i\<in>set (map mutationInput (metafieldsToSave False links existing)). input_key i \<noteq> ''hide_atc''"
  by (simp add: metafieldsToSave_def mutationInput_def)

lemma hide_atc_deleted:
  "''hide_atc'' \<in> mf_key ` set existing \<Longrightarrow>
   metafieldIdentifier productId ''hide_atc''
     \<in> set (map (\<lambda>mf. metafieldIdentifier productId (mf_key mf)) (metafieldsToDelete False existing))"
  by (auto simp: metafieldsToDelete_def keysToKeep_def)

text \<open>
  Claim C2. In a save whose read of the existing entries is answered: with the check box
  on, every \<open>productUpdate\<close> that is sent carries \<open>hide_atc\<close> with the value \<open>"true"\<close>;
  with the check box off, no \<open>productUpdate\<close> carries the key and an existing
  \<open>hide_atc\<close> entry of the namespace is among the identifiers of the delete mutation.
  Unless the delete call throws, the \<open>productUpdate\<close> is sent.
\<close>

theorem hide_atc_key_presence:
  assumes save: "formData ''actionType'' = Some ''save''"
    and pid: "formData ''productId'' = Some productId" "productId \<noteq> []"
    and read: "admin (QueryProductMetafields productId) w = (Inr existingData, w1)"
  shows "(formData ''hideAtc'' = Some ''on'' \<longrightarrow>
            (\<forall>p inputs. ProductUpdate p inputs \<in> set (snd (snd (action admin formData (w, [])))) \<longrightarrow>
               (\<exists>i\<in>set inputs. input_key i = ''hide_atc'' \<and> input_value i = ''true'' \<and>
                                input_namespace i = METAFIELD_NAMESPACE)))
       \<and> (formData ''hideAtc'' \<noteq> Some ''on'' \<longrightarrow>
            (\<forall>p inputs. ProductUpdate p inputs \<in> set (snd (snd (action admin formData (w, [])))) \<longrightarrow>
               (\<forall>i\<in>set inputs. input_key i \<noteq> ''hide_atc''))
            \<and> (''hide_atc'' \<in> mf_key ` set (orEmpty (data_product_metafields_nodes existingData)) \<longrightarrow>
                 (\<exists>ids. MetafieldsDelete ids \<in> set (snd (snd (action admin formData (w, [])))) \<and>
                        metafieldIdentifier productId ''hide_atc'' \<in> set ids)))
       \<and> ((\<forall>ids. \<not> isl (fst (admin (MetafieldsDelete ids) w1))) \<longrightarrow>
            (\<exists>inputs. ProductUpdate productId inputs \<in> set (snd (snd (action admin formData (w, []))))))"
proof -
  let ?existing = "orEmpty (data_product_metafields_nodes existingData)"
  have issued: "snd (snd (action admin formData (w, []))) =
      (let toDelete = metafieldsToDelete (formData ''hideAtc'' = Some ''on'') ?existing;
           ids = map (\<lambda>mf. metafieldIdentifier productId (mf_key mf)) toDelete;
           inputs = map mutationInput
             (metafieldsToSave (formData ''hideAtc'' = Some ''on'') (formLinks formData) ?existing)
       in if toDelete = [] then [QueryProductMetafields productId, ProductUpdate productId inputs]
          else if isl (fst (admin (MetafieldsDelete ids) w1))
          then [QueryProductMetafields productId, MetafieldsDelete ids]
          else [QueryProductMetafields productId, MetafieldsDelete ids, ProductUpdate productId inputs])"
    by (simp add: action_is_save [OF save pid] action_save_issued read Let_def)
  have on: "formData ''hideAtc'' = Some ''on'' \<Longrightarrow> ProductUpdate p inputs \<in> set (snd (snd (action admin formData (w, [])))) \<Longrightarrow>
      \<exists>i\<in>set inputs. input_key i = ''hide_atc'' \<and> input_value i = ''true'' \<and> input_namespace i = METAFIELD_NAMESPACE" for p inputs
    using hide_atc_saved [of "formLinks formData" ?existing]
    by (auto simp: issued Let_def split: if_splits)
  have off: "formData ''hideAtc'' \<noteq> Some ''on'' \<Longrightarrow> ProductUpdate p inputs \<in> set (snd (snd (action admin formData (w, [])))) \<Longrightarrow>
      \<forall>i\<in>set inputs. input_key i \<noteq> ''hide_atc''" for p inputs
    using hide_atc_not_saved [of "formLinks formData" ?existing]
    by (auto simp: issued Let_def split: if_splits)
  have del: "formData ''hideAtc'' \<noteq> Some ''on'' \<Longrightarrow> ''hide_atc'' \<in> mf_key ` set ?existing \<Longrightarrow>
      \<exists>ids. MetafieldsDelete ids \<in> set (snd (snd (action admin formData (w, [])))) \<and>
            metafieldIdentifier productId ''hide_atc'' \<in> set ids"
    using hide_atc_deleted [of ?existing productId]
    by (auto simp: issued Let_def split: if_splits)
  have upd: "\<forall>ids. \<not> isl (fst (admin (MetafieldsDelete ids) w1)) \<Longrightarrow>
      \<exists>inputs. ProductUpdate productId inputs \<in> set (snd (snd (action admin formData (w, []))))"
    by (auto simp: issued Let_def split: if_splits)
  show ?thesis
    using on off del upd by blast
qed

lemmas example_defs = product1_def linkA_def linkBlank_def linkC_def editing_def shop_unconfigured_def
  shop_hidden_atc_def form_no_links_def form_delete_def legacy_product_def array_product_def
  null_product_def mug_loaded_def runtime_example_def template_with_block_def shop_with_theme_def patch_example_def jsonOfLink_def browser_example_def
  legacy_payload_def entry_enabled_text_def container_example_def count_hide_def button_A_def

lemmas form_defs = saveFormData_def normalize_links_def isEmptyLink_def trim_def isWhiteSpace_def
  toString.simps formLinks_def formLinkCount_def formLink_def getOrEmpty_def parseInt_def isDigit_def

lemmas action_defs = action_def action_save_def action_delete_def graphql_def productUpdateStep_def
  metafieldsToSave_def metafieldsToDelete_def keysToKeep_def existingMetafieldMap_def mutationInput_def
  metafieldIdentifier_def METAFIELD_NAMESPACE_def orEmpty_def emptyResponse_def nodesOf_def
  succeeded_def failed_def

theorem hide_atc_key_presence_witness:
  "saveFormData product1 (editing [linkA, linkBlank] False) ''actionType'' = Some ''save''
   \<and> saveFormData product1 (editing [linkA, linkBlank] False) ''hideAtc'' \<noteq> Some ''on''
   \<and> ''hide_atc'' \<in> mf_key ` set (nodesOf shop_hidden_atc product1)
   \<and> snd (snd (action shop_admin (saveFormData product1 (editing [linkA, linkBlank] False))
                  (shop_hidden_atc, []))) =
       [QueryProductMetafields product1,
        MetafieldsDelete [metafieldIdentifier product1 ''hide_atc''],
        ProductUpdate product1
          [\<lparr>input_namespace = ''bl_custom_button'', input_id = Some ''gid://shopify/Metafield/11'',
            input_key = ''external_links'', input_value = JSON_stringify [linkA],
            input_type = ''json''\<rparr>]]
   \<and> saveFormData product1 (editing [linkA, linkBlank] True) ''hideAtc'' = Some ''on''
   \<and> snd (snd (action shop_admin (saveFormData product1 (editing [linkA, linkBlank] True))
                  (shop_unconfigured, []))) =
       [QueryProductMetafields product1,
        ProductUpdate product1
          [\<lparr>input_namespace = ''bl_custom_button'', input_id = None,
            input_key = ''external_links'', input_value = JSON_stringify [linkA],
            input_type = ''json''\<rparr>,
           \<lparr>input_namespace = ''bl_custom_button'', input_id = None,
            input_key = ''hide_atc'', input_value = ''true'',
            input_type = ''single_line_text_field''\<rparr>]]"
proof -
  have off: "saveFormData product1 (editing [linkA, linkBlank] False) ''actionType'' = Some ''save''"
    "saveFormData product1 (editing [linkA, linkBlank] False) ''productId'' = Some product1"
    "product1 \<noteq> []"
    "shop_admin (QueryProductMetafields product1) shop_hidden_atc =
       (Inr (emptyResponse\<lparr>data_product_title := Some ''Product'',
              data_product_metafields_nodes := Some (nodesOf shop_hidden_atc product1)\<rparr>), shop_hidden_atc)"
    by (simp_all add: example_defs form_defs)
  have on: "saveFormData product1 (editing [linkA, linkBlank] True) ''actionType'' = Some ''save''"
    "saveFormData product1 (editing [linkA, linkBlank] True) ''productId'' = Some product1"
    "shop_admin (QueryProductMetafields product1) shop_unconfigured =
       (Inr (emptyResponse\<lparr>data_product_title := Some ''Product'',
              data_product_metafields_nodes := Some (nodesOf shop_unconfigured product1)\<rparr>), shop_unconfigured)"
    by (simp_all add: example_defs form_defs)
  have evaluated: ?thesis
    by (simp add: example_defs form_defs action_defs Let_def)
  show ?thesis
    using hide_atc_key_presence
            [of "saveFormData product1 (editing [linkA, linkBlank] False)" product1 shop_admin, OF off]
          hide_atc_key_presence
            [of "saveFormData product1 (editing [linkA, linkBlank] True)" product1 shop_admin,
             OF on(1,2) off(3) on(3)]
          evaluated
    by -
qed

text \<open>
  The older save branch of app/routes/app._index.tsx agrees on the \<open>hide_atc\<close> key:
  whatever \<open>productUpdate\<close> it sends carries the key exactly when the box is ticked
  (and it deletes every existing entry beforehand).
\<close>

lemma action_save_app_index_issued:
  "snd (snd (action_save_app_index admin formData productId (w, reqs))) =
     (case admin (QueryProductMetafields productId) w of
        (Inl e, w1) \<Rightarrow> reqs @ [QueryProductMetafields productId]
      | (Inr deleteData, w1) \<Rightarrow>
          (let keysToDelete = map mf_key (orEmpty (data_product_metafields_nodes deleteData));
               ids = map (metafieldIdentifier productId) keysToDelete;
               inputs = metafieldsToCreate
                 (formData ''hideAtc'' = Some ''on'' \<or>
                  (formData ''hideAtc'' = None \<and> formData ''hideAtc_hidden'' = Some ''true''))
                 (map (formLink_app_index formData) [0 ..< formLinkCount formData])
           in (if keysToDelete = [] then reqs @ [QueryProductMetafields productId]
               else reqs @ [QueryProductMetafields productId, MetafieldsDelete ids]) @
              (if (keysToDelete \<noteq> [] \<and> isl (fst (admin (MetafieldsDelete ids) w1))) \<or> inputs = []
               then [] else [ProductUpdate productId inputs])))"
  by (auto simp: action_save_app_index_def graphql_def productUpdateStep_issued Let_def
           split: prod.splits sum.splits)

lemma metafieldsToCreate_hide_atc:
  "if hide then \<exists>i\<in>set (metafieldsToCreate hide links). input_key i = ''hide_atc'' \<and> input_value i = ''true''
   else \<forall>i\<in>set (metafieldsToCreate hide links). input_key i \<noteq> ''hide_atc''"
  by (simp add: metafieldsToCreate_def)

lemma hide_atc_app_index:
  assumes "ProductUpdate p inputs \<in> set (snd (snd (action_save_app_index admin formData productId (w, []))))"
  shows "if formData ''hideAtc'' = Some ''on'' \<or>
            (formData ''hideAtc'' = None \<and> formData ''hideAtc_hidden'' = Some ''true'')
         then \<exists>i\<in>set inputs. input_key i = ''hide_atc'' \<and> input_value i = ''true''
         else \<forall>i\<in>set inputs. input_key i \<noteq> ''hide_atc''"
proof -
  let ?hide = "formData ''hideAtc'' = Some ''on'' \<or>
            (formData ''hideAtc'' = None \<and> formData ''hideAtc_hidden'' = Some ''true'')"
  let ?links = "map (formLink_app_index formData) [0 ..< formLinkCount formData]"
  have eq: "inputs = metafieldsToCreate ?hide ?links"
  proof (cases "admin (QueryProductMetafields productId) w")
    case (Pair r w1)
    show ?thesis
    proof (cases r)
      case (Inl e)
      with Pair assms show ?thesis by (simp add: action_save_app_index_issued)
    next
      case (Inr deleteData)
      with Pair assms show ?thesis
        by (simp add: action_save_app_index_issued Let_def split: if_splits)
    qed
  qed
  show ?thesis
    unfolding eq by (rule metafieldsToCreate_hide_atc)
qed

lemma toString_0: "toString 0 = ''0''"
  by (simp add: toString.simps)

lemma saveFormData_no_links:
  "normalize_links (ep_externalLinks ep) = [] \<Longrightarrow> \<not> ep_hideAtc ep \<Longrightarrow>
   saveFormData productId ep =
     [''actionType'' \<mapsto> ''save'', ''productId'' \<mapsto> productId, ''linkCount'' \<mapsto> ''0'']"
  by (simp add: saveFormData_def toString_0)

lemma formLinks_zero: "formData ''linkCount'' = Some ''0'' \<Longrightarrow> formLinks formData = []"
  by (simp add: formLinks_def formLinkCount_def getOrEmpty_def parseInt_def isWhiteSpace_def isDigit_def)

lemma external_links_kept:
  "metafieldIdentifier productId ''external_links''
     \<notin> set (map (\<lambda>mf. metafieldIdentifier productId (mf_key mf)) (metafieldsToDelete hideAtc existing))"
  by (auto simp: metafieldsToDelete_def keysToKeep_def metafieldIdentifier_def)

section \<open>Saving an empty configuration\<close>

text \<open>
  Claim C1, as the route of src/unnamed/part_003 has it. When the links of the edited
  product normalise to the empty list and the box is unticked, and the remote answers
  the read and does not throw on the delete mutation, the last request of the save is a
  \<open>productUpdate\<close> of exactly one metafield: \<open>external_links\<close>, of type \<open>json\<close>, with the
  value \<open>[]\<close>; and no delete mutation of the save names \<open>external_links\<close>.
\<close>

theorem empty_links_still_upserted:
  assumes empty: "normalize_links (ep_externalLinks ep) = []"
    and off: "\<not> ep_hideAtc ep"
    and pid: "productId \<noteq> []"
    and read: "admin (QueryProductMetafields productId) w = (Inr existingData, w1)"
    and del: "\<forall>ids. \<not> isl (fst (admin (MetafieldsDelete ids) w1))"
  shows "\<exists>pre i. snd (snd (action admin (saveFormData productId ep) (w, []))) =
                   pre @ [ProductUpdate productId [i]]
          \<and> input_namespace i = METAFIELD_NAMESPACE \<and> input_key i = ''external_links''
          \<and> input_value i = ''[]'' \<and> input_type i = ''json''
          \<and> (\<forall>ids. MetafieldsDelete ids \<in> set pre \<longrightarrow>
                 metafieldIdentifier productId ''external_links'' \<notin> set ids)"
proof -
  let ?form = "saveFormData productId ep"
  let ?existing = "orEmpty (data_product_metafields_nodes existingData)"
  let ?ids = "map (\<lambda>mf. metafieldIdentifier productId (mf_key mf)) (metafieldsToDelete False ?existing)"
  let ?i = "\<lparr>input_namespace = METAFIELD_NAMESPACE,
             input_id = (case map_option mf_id (existingMetafieldMap ?existing ''external_links'') of
                           None \<Rightarrow> None | Some i \<Rightarrow> if i = [] then None else Some i),
             input_key = ''external_links'', input_value = ''[]'', input_type = ''json''\<rparr>"
  have form: "?form = [''actionType'' \<mapsto> ''save'', ''productId'' \<mapsto> productId, ''linkCount'' \<mapsto> ''0'']"
    by (rule saveFormData_no_links [OF empty off])
  have links: "formLinks ?form = []"
    by (rule formLinks_zero) (simp add: form)
  have hide: "?form ''hideAtc'' \<noteq> Some ''on''"
    by (simp add: form)
  have inputs: "map mutationInput (metafieldsToSave False [] ?existing) = [?i]"
    by (simp add: metafieldsToSave_def mutationInput_def JSON_stringify_def)
  have "snd (snd (action admin ?form (w, []))) = snd (snd (action_save admin ?form productId (w, [])))"
    by (rule action_is_save) (simp_all add: form pid)
  then have issued: "snd (snd (action admin ?form (w, []))) =
      (if metafieldsToDelete False ?existing = [] then [QueryProductMetafields productId] else
         [QueryProductMetafields productId, MetafieldsDelete ?ids]) @ [ProductUpdate productId [?i]]"
    using del by (simp add: action_save_issued read Let_def links hide inputs)
  have kept: "\<forall>ids. MetafieldsDelete ids
        \<in> set (if metafieldsToDelete False ?existing = [] then [QueryProductMetafields productId] else
         [QueryProductMetafields productId, MetafieldsDelete ?ids]) \<longrightarrow>
       metafieldIdentifier productId ''external_links'' \<notin> set ids"
    using external_links_kept [of productId False ?existing] by auto
  show ?thesis
    apply (rule exI [of _ "if metafieldsToDelete False ?existing = [] then [QueryProductMetafields productId] else
         [QueryProductMetafields productId, MetafieldsDelete ?ids]"])
    apply (rule exI [of _ ?i])
    using issued kept by simp
qed

text \<open>
  The save branch kept in app/routes/app._index.tsx does otherwise: for a form without
  link rows and with the box unticked it deletes the existing \<open>external_links\<close> entry
  together with every other entry of the namespace, and sends no \<open>productUpdate\<close>.
\<close>

theorem app_index_save_deletes_external_links:
  "normalize_links [] = [] \<and>
   action_app_index shop_admin form_no_links (shop_hidden_atc, []) =
     (succeeded ''Product configuration saved successfully!'',
      shop_unconfigured,
      [QueryProductMetafields product1,
       MetafieldsDelete [metafieldIdentifier product1 ''external_links'',
                         metafieldIdentifier product1 ''hide_atc'']])"
  by (simp add: example_defs form_defs action_defs action_app_index_def action_save_app_index_def
        metafieldsToCreate_def Let_def)

theorem empty_links_still_upserted_witness:
  "normalize_links (ep_externalLinks (editing [linkBlank] False)) = []
   \<and> \<not> ep_hideAtc (editing [linkBlank] False)
   \<and> product1 \<noteq> []
   \<and> snd (snd (action shop_admin (saveFormData product1 (editing [linkBlank] False))
                  (shop_hidden_atc, []))) =
       [QueryProductMetafields product1,
        MetafieldsDelete [metafieldIdentifier product1 ''hide_atc''],
        ProductUpdate product1
          [\<lparr>input_namespace = ''bl_custom_button'', input_id = Some ''gid://shopify/Metafield/11'',
            input_key = ''external_links'', input_value = ''[]'', input_type = ''json''\<rparr>]]"
proof -
  have hyps: "normalize_links (ep_externalLinks (editing [linkBlank] False)) = []"
    "\<not> ep_hideAtc (editing [linkBlank] False)"
    "product1 \<noteq> []"
    "shop_admin (QueryProductMetafields product1) shop_hidden_atc =
       (Inr (emptyResponse\<lparr>data_product_title := Some ''Product'',
              data_product_metafields_nodes := Some (nodesOf shop_hidden_atc product1)\<rparr>), shop_hidden_atc)"
    "\<forall>ids. \<not> isl (fst (shop_admin (MetafieldsDelete ids) shop_hidden_atc))"
    by (simp_all add: example_defs form_defs)
  have evaluated: ?thesis
    by (simp add: example_defs form_defs action_defs JSON_stringify_def Let_def)
  show ?thesis
    using empty_links_still_upserted [of "editing [linkBlank] False" product1 shop_admin, OF hyps] evaluated
    by -
qed

section \<open>Failures of the delete step of a save\<close>

text \<open>
  What a save does report: an exception of the delete call ends it before the
  \<open>productUpdate\<close>, with the message of the exception; user errors of the
  \<open>productUpdate\<close> are joined into the answer.
\<close>

lemma save_aborts_when_delete_throws:
  assumes "admin (QueryProductMetafields productId) w = (Inr existingData, w1)"
    and "metafieldsToDelete (formData ''hideAtc'' = Some ''on'')
           (orEmpty (data_product_metafields_nodes existingData)) \<noteq> []"
    and "admin (MetafieldsDelete
           (map (\<lambda>mf. metafieldIdentifier productId (mf_key mf))
              (metafieldsToDelete (formData ''hideAtc'' = Some ''on'')
                 (orEmpty (data_product_metafields_nodes existingData))))) w1 = (Inl e, w2)"
    and "formData ''actionType'' = Some ''save''" and "formData ''productId'' = Some productId"
    and "productId \<noteq> []"
  shows "action admin formData (w, []) =
     (failed (''Failed to delete product configuration: '' @ exn_message e),
      w2,
      [QueryProductMetafields productId,
       MetafieldsDelete
         (map (\<lambda>mf. metafieldIdentifier productId (mf_key mf))
            (metafieldsToDelete (formData ''hideAtc'' = Some ''on'')
               (orEmpty (data_product_metafields_nodes existingData))))])"
  using assms
  by (simp add: action_def action_save_def graphql_def getOrEmpty_def Let_def)

lemma save_reports_update_errors:
  assumes "admin (ProductUpdate productId inputs) w = (Inr saveData, w1)"
    and "resp_errors saveData = None"
    and "data_productUpdate_userErrors saveData = Some (m # ms)"
    and "inputs \<noteq> []"
  shows "productUpdateStep admin productId inputs (w, reqs) =
     (Inr (failed (''Failed to save: '' @ join '', '' (m # ms))), w1, reqs @ [ProductUpdate productId inputs])"
  using assms
  by (simp add: productUpdateStep_def graphql_def orEmpty_def)

text \<open>
  Claim C5 at a failing input. The remote answers the delete mutation of a save with the
  user error \<open>Access denied\<close> and deletes nothing. The save does not read that answer:
  it goes on to the \<open>productUpdate\<close> and reports success.
\<close>

theorem save_ignores_delete_user_errors:
  "fst (rejecting_admin (MetafieldsDelete [metafieldIdentifier product1 ''hide_atc'']) shop_hidden_atc) =
     Inr (emptyResponse\<lparr>data_metafieldsDelete_userErrors := Some [''Access denied'']\<rparr>)
   \<and> fst (action rejecting_admin (saveFormData product1 (editing [linkA] False)) (shop_hidden_atc, [])) =
       \<lparr>success = True, error = None, message = Some ''Product configuration saved successfully!''\<rparr>
   \<and> snd (snd (action rejecting_admin (saveFormData product1 (editing [linkA] False))
                  (shop_hidden_atc, []))) =
       [QueryProductMetafields product1,
        MetafieldsDelete [metafieldIdentifier product1 ''hide_atc''],
        ProductUpdate product1
          [\<lparr>input_namespace = ''bl_custom_button'', input_id = Some ''gid://shopify/Metafield/11'',
            input_key = ''external_links'', input_value = JSON_stringify [linkA],
            input_type = ''json''\<rparr>]]"
  by (simp add: example_defs form_defs action_defs rejecting_admin_def Let_def)

section \<open>Deleting a product that has no configuration\<close>

text \<open>
  Claim C10. When the read of a delete action is answered without \<open>errors\<close> and with
  no metafield of the namespace, the action answers success with the message that the
  configuration was already removed, and the read is the only request it issues: no
  delete mutation is sent. The delete branch of app/routes/app._index.tsx is the same.
\<close>

theorem delete_of_unconfigured_product:
  assumes del: "formData ''actionType'' = Some ''delete''"
    and pid: "formData ''productId'' = Some productId" "productId \<noteq> []"
    and read: "admin (QueryProductMetafields productId) w = (Inr metafieldsData, w1)"
    and ok: "resp_errors metafieldsData = None"
    and none: "orEmpty (data_product_metafields_nodes metafieldsData) = []"
  shows "action admin formData (w, []) =
           (\<lparr>success = True, error = None,
             message = Some ''Product configuration was already removed.''\<rparr>,
            w1, [QueryProductMetafields productId])
         \<and> action_app_index admin formData (w, []) = action admin formData (w, [])
         \<and> (\<forall>ids. MetafieldsDelete ids \<notin> set (snd (snd (action admin formData (w, [])))))"
  using assms
  by (simp add: action_def action_app_index_def action_delete_def graphql_def getOrEmpty_def
        succeeded_def Let_def)

theorem delete_of_unconfigured_product_witness:
  "form_delete ''actionType'' = Some ''delete''
   \<and> form_delete ''productId'' = Some product1
   \<and> orEmpty (Some (nodesOf shop_unconfigured product1)) = []
   \<and> action shop_admin form_delete (shop_unconfigured, []) =
       (\<lparr>success = True, error = None,
         message = Some ''Product configuration was already removed.''\<rparr>,
        shop_unconfigured, [QueryProductMetafields product1])
   \<and> snd (action shop_admin form_delete (shop_hidden_atc, [])) =
       (shop_unconfigured,
        [QueryProductMetafields product1,
         MetafieldsDelete [metafieldIdentifier product1 ''external_links'',
                           metafieldIdentifier product1 ''hide_atc'']])"
proof -
  have hyps: "form_delete ''actionType'' = Some ''delete''"
    "form_delete ''productId'' = Some product1"
    "product1 \<noteq> []"
    "shop_admin (QueryProductMetafields product1) shop_unconfigured =
       (Inr (emptyResponse\<lparr>data_product_title := Some ''Product'',
              data_product_metafields_nodes := Some (nodesOf shop_unconfigured product1)\<rparr>), shop_unconfigured)"
    "resp_errors (emptyResponse\<lparr>data_product_title := Some ''Product'',
              data_product_metafields_nodes := Some (nodesOf shop_unconfigured product1)\<rparr>) = None"
    "orEmpty (data_product_metafields_nodes (emptyResponse\<lparr>data_product_title := Some ''Product'',
              data_product_metafields_nodes := Some (nodesOf shop_unconfigured product1)\<rparr>)) = []"
    by (simp_all add: example_defs emptyResponse_def nodesOf_def orEmpty_def)
  have evaluated: ?thesis
    by (simp add: example_defs action_defs getOrEmpty_def Let_def)
  show ?thesis
    using delete_of_unconfigured_product [of form_delete product1 shop_admin, OF hyps] evaluated
    by -
qed

section \<open>Reading the legacy keys\<close>

lemma metafieldMap_None: "metafieldMap metafields k = None \<longleftrightarrow> k \<notin> mf_key ` set metafields"
  by (simp add: metafieldMap_def map_of_eq_None_iff image_image)

lemma orEmpty_simps [simp]: "orEmpty None = []" "orEmpty (Some xs) = xs"
  by (simp_all add: orEmpty_def)

lemma action_session:
  "snd (action admin formData s) =
     snd (if formData ''actionType'' = Some ''save'' \<and> getOrEmpty formData ''productId'' \<noteq> []
          then action_save admin formData (getOrEmpty formData ''productId'') s
          else if formData ''actionType'' = Some ''delete'' \<and> getOrEmpty formData ''productId'' \<noteq> []
          then action_delete admin (getOrEmpty formData ''productId'') s
          else (Inr (failed ''Invalid action''), s))"
  by (simp add: action_def Let_def split: prod.splits sum.splits)

lemma action_delete_issued:
  "ProductUpdate p inputs \<notin> set (snd (snd (action_delete admin productId (w, []))))"
  by (auto simp: action_delete_def graphql_def firstErrorMessage_def Let_def
           split: prod.splits sum.splits option.splits list.splits if_splits)

lemma saved_keys:
  "\<forall>i\<in>set (map mutationInput (metafieldsToSave hideAtc links existing)).
      input_key i = ''external_links'' \<or> input_key i = ''hide_atc''"
  by (simp add: metafieldsToSave_def mutationInput_def)

lemma action_save_updates:
  assumes "ProductUpdate p inputs \<in> set (snd (snd (action_save admin formData productId (w, []))))"
  shows "\<forall>i\<in>set inputs. input_key i = ''external_links'' \<or> input_key i = ''hide_atc''"
proof (cases "admin (QueryProductMetafields productId) w")
  case (Pair r w1)
  show ?thesis
  proof (cases r)
    case (Inl e)
    with Pair assms show ?thesis by (simp add: action_save_issued)
  next
    case (Inr existingData)
    with Pair assms have "inputs = map mutationInput
        (metafieldsToSave (formData ''hideAtc'' = Some ''on'') (formLinks formData)
           (orEmpty (data_product_metafields_nodes existingData)))"
      by (auto simp: action_save_issued Let_def split: if_splits)
    then show ?thesis using saved_keys by blast
  qed
qed

lemma action_updates:
  assumes "ProductUpdate p inputs \<in> set (snd (snd (action admin formData (w, []))))"
  shows "\<forall>i\<in>set inputs. input_key i = ''external_links'' \<or> input_key i = ''hide_atc''"
proof (cases "formData ''actionType'' = Some ''save'' \<and> getOrEmpty formData ''productId'' \<noteq> []")
  case True
  with assms have "ProductUpdate p inputs
      \<in> set (snd (snd (action_save admin formData (getOrEmpty formData ''productId'') (w, []))))"
    by (simp add: action_session)
  then show ?thesis by (rule action_save_updates)
next
  case False
  note not_save = this
  show ?thesis
  proof (cases "formData ''actionType'' = Some ''delete'' \<and> getOrEmpty formData ''productId'' \<noteq> []")
    case True
    with assms not_save have "ProductUpdate p inputs
        \<in> set (snd (snd (action_delete admin (getOrEmpty formData ''productId'') (w, []))))"
      by (simp add: action_session)
    then show ?thesis by (simp add: action_delete_issued)
  next
    case False
    with assms not_save show ?thesis by (simp add: action_session)
  qed
qed

lemma metafieldMap_Some_nonempty: "metafieldMap metafields k = Some v \<Longrightarrow> metafields \<noteq> []"
  by (cases metafields) (simp_all add: metafieldMap_def)

lemma loadProduct_legacy:
  assumes "orEmptyString (metafieldMap (orEmpty (pn_metafields_nodes product)) ''external_links'') = []"
  shows "loadProduct rt product =
           Inr \<lparr>p_id = pn_id product, p_title = pn_title product, p_handle = pn_handle product,
                p_externalUrl =
                  JString (orEmptyString (metafieldMap (orEmpty (pn_metafields_nodes product)) ''external_url'')),
                p_buttonText =
                  JString (orEmptyString (metafieldMap (orEmpty (pn_metafields_nodes product)) ''button_text'')),
                p_isEnabled =
                  (metafieldMap (orEmpty (pn_metafields_nodes product)) ''is_enabled'' = Some ''true''),
                p_hideAtc = (metafieldMap (orEmpty (pn_metafields_nodes product)) ''hide_atc'' = Some ''true''),
                p_hasMetafields = (orEmpty (pn_metafields_nodes product) \<noteq> []),
                p_hasMultipleLinks = False,
                p_externalLinks = JArray []\<rparr>"
  using assms by (simp add: loadProduct_def Let_def greaterThanOne_def)

lemma loadProduct_new_format:
  assumes "metafieldMap (orEmpty (pn_metafields_nodes product)) ''external_links'' = Some v" and "v \<noteq> []"
  shows "loadProduct rt product =
           (case readExternalLinks rt v of
              (externalLinks, buttonText, externalUrl, isEnabled) \<Rightarrow>
                (case lengthOf externalLinks of
                   Inl e \<Rightarrow> Inl e
                 | Inr len \<Rightarrow>
                     (case greaterThanOne (rt_toNumber rt) len of
                        Inl e \<Rightarrow> Inl e
                      | Inr hasMultipleLinks \<Rightarrow>
                          Inr \<lparr>p_id = pn_id product, p_title = pn_title product,
                               p_handle = pn_handle product,
                               p_externalUrl = externalUrl, p_buttonText = buttonText,
                               p_isEnabled = isEnabled,
                               p_hideAtc =
                                 (metafieldMap (orEmpty (pn_metafields_nodes product)) ''hide_atc'' = Some ''true''),
                               p_hasMetafields = True,
                               p_hasMultipleLinks = hasMultipleLinks,
                               p_externalLinks = externalLinks\<rparr>)))"
proof -
  have "orEmpty (pn_metafields_nodes product) \<noteq> []"
    using assms(1) by (rule metafieldMap_Some_nonempty)
  then show ?thesis
    using assms by (simp add: loadProduct_def Let_def orEmptyString_def split: prod.splits sum.splits)
qed

lemma findEnabledLink_find:
  "JNull \<notin> set links \<Longrightarrow>
     findEnabledLink links = Inr (find (\<lambda>link. propertyOf link ''enabled'' = Some (JBool True)) links)"
proof (induction links)
  case Nil
  show ?case by simp
next
  case (Cons link links)
  then have "link \<noteq> JNull" by auto
  then have "getProperty link ''enabled'' = Inr (propertyOf link ''enabled'')"
    by (cases link) simp_all
  with Cons show ?case by simp
qed

lemma enabled_entry_is_object:
  "propertyOf link ''enabled'' = Some x \<Longrightarrow>
     truthy link \<and> getProperty link name = Inr (propertyOf link name)"
  by (cases link) simp_all

lemma readExternalLinks_array:
  assumes "rt_parse rt v = Some (JArray links)" and "JNull \<notin> set links"
  shows "readExternalLinks rt v =
           (case find (\<lambda>link. propertyOf link ''enabled'' = Some (JBool True)) links of
              None \<Rightarrow> (JArray links, JString [], JString [], False)
            | Some link \<Rightarrow>
                (JArray links, orEmptyText (propertyOf link ''text''),
                 orEmptyText (propertyOf link ''url''), True))"
proof (cases "find (\<lambda>link. propertyOf link ''enabled'' = Some (JBool True)) links")
  case None
  with assms show ?thesis
    by (simp add: readExternalLinks_def findEnabled_def findEnabledLink_find)
next
  case (Some link)
  then have "propertyOf link ''enabled'' = Some (JBool True)"
    by (auto simp: find_Some_iff)
  then have "truthy link" "getProperty link ''text'' = Inr (propertyOf link ''text'')"
      "getProperty link ''url'' = Inr (propertyOf link ''url'')"
    using enabled_entry_is_object by blast+
  with assms Some show ?thesis
    by (simp add: readExternalLinks_def findEnabled_def findEnabledLink_find)
qed

lemma mapProducts_throws:
  "isl (mapProducts callback allProducts) \<longleftrightarrow> (\<exists>q\<in>set allProducts. isl (callback q))"
  by (induction allProducts) (auto split: sum.splits)

lemma mapProducts_returns:
  "\<forall>q\<in>set allProducts. \<not> isl (callback q) \<Longrightarrow>
     mapProducts callback allProducts = Inr (map (\<lambda>q. projr (callback q)) allProducts)"
  by (induction allProducts) (auto split: sum.splits)

text \<open>
  Claim C7, as the loader has it. The mapping of a product whose \<open>external_links\<close> value
  is absent (or empty) does not throw; it copies the legacy values into the display
  fields \<open>externalUrl\<close>, \<open>buttonText\<close> and \<open>isEnabled\<close> (the last one true exactly for the
  text \<open>true\<close>), and its \<open>externalLinks\<close> array is empty. When the value is present and
  not empty, the legacy keys are not read: two products that differ only in other keys
  than \<open>external_links\<close> and \<open>hide_atc\<close> are mapped alike. A value that parses to an array
  without \<open>null\<close> entries gives that array, and the display fields of its first entry
  whose \<open>enabled\<close> is \<open>true\<close>; a value that does not parse gives the empty array; a value
  that parses to \<open>null\<close> makes the mapping throw. The loader lists the mapped products that
  have metafields when no mapping throws, and no product at all when one does. And every
  \<open>productUpdate\<close> that the action sends writes no key other than \<open>external_links\<close> and
  \<open>hide_atc\<close>.
\<close>

theorem legacy_fallback_read:
  "(orEmptyString (metafieldMap (orEmpty (pn_metafields_nodes product)) ''external_links'') = [] \<longrightarrow>
      (\<exists>p. loadProduct rt product = Inr p
         \<and> p_externalUrl p =
             JString (orEmptyString (metafieldMap (orEmpty (pn_metafields_nodes product)) ''external_url''))
         \<and> p_buttonText p =
             JString (orEmptyString (metafieldMap (orEmpty (pn_metafields_nodes product)) ''button_text''))
         \<and> p_isEnabled p =
             (metafieldMap (orEmpty (pn_metafields_nodes product)) ''is_enabled'' = Some ''true'')
         \<and> p_externalLinks p = JArray []
         \<and> \<not> p_hasMultipleLinks p
         \<and> p_hasMetafields p = (orEmpty (pn_metafields_nodes product) \<noteq> [])))
   \<and> (\<forall>v. metafieldMap (orEmpty (pn_metafields_nodes product)) ''external_links'' = Some v \<and> v \<noteq> [] \<longrightarrow>
        (\<forall>other :: ProductNode.
           metafieldMap (orEmpty (pn_metafields_nodes other)) ''external_links'' = Some v \<and>
           metafieldMap (orEmpty (pn_metafields_nodes other)) ''hide_atc'' =
             metafieldMap (orEmpty (pn_metafields_nodes product)) ''hide_atc'' \<and>
           pn_id other = pn_id product \<and> pn_title other = pn_title product \<and>
           pn_handle other = pn_handle product \<longrightarrow>
             loadProduct rt other = loadProduct rt product)
      \<and> (\<forall>links. rt_parse rt v = Some (JArray links) \<and> JNull \<notin> set links \<longrightarrow>
           (\<exists>p. loadProduct rt product = Inr p
              \<and> p_externalLinks p = JArray links
              \<and> p_hasMultipleLinks p = (length links > 1)
              \<and> p_isEnabled p = (\<exists>link\<in>set links. propertyOf link ''enabled'' = Some (JBool True))
              \<and> p_buttonText p =
                  (case find (\<lambda>link. propertyOf link ''enabled'' = Some (JBool True)) links of
                     None \<Rightarrow> JString [] | Some link \<Rightarrow> orEmptyText (propertyOf link ''text''))
              \<and> p_externalUrl p =
                  (case find (\<lambda>link. propertyOf link ''enabled'' = Some (JBool True)) links of
                     None \<Rightarrow> JString [] | Some link \<Rightarrow> orEmptyText (propertyOf link ''url''))))
      \<and> (rt_parse rt v = None \<longrightarrow>
           (\<exists>p. loadProduct rt product = Inr p
              \<and> p_externalLinks p = JArray [] \<and> \<not> p_isEnabled p
              \<and> p_buttonText p = JString [] \<and> p_externalUrl p = JString []))
      \<and> (rt_parse rt v = Some JNull \<longrightarrow> isl (loadProduct rt product)))
   \<and> ((\<exists>q\<in>set allProducts. isl (loadProduct rt q)) \<longrightarrow> configuredProductsOf rt allProducts = [])
   \<and> ((\<forall>q\<in>set allProducts. \<not> isl (loadProduct rt q)) \<longrightarrow>
        configuredProductsOf rt allProducts =
          filter p_hasMetafields (map (\<lambda>q. projr (loadProduct rt q)) allProducts))
   \<and> (\<forall>p inputs. ProductUpdate p inputs \<in> set (snd (snd (action admin formData (w, [])))) \<longrightarrow>
        (\<forall>i\<in>set inputs. input_key i = ''external_links'' \<or> input_key i = ''hide_atc''))"
proof (intro conjI impI allI)
  assume "orEmptyString (metafieldMap (orEmpty (pn_metafields_nodes product)) ''external_links'') = []"
  then show "\<exists>p. loadProduct rt product = Inr p
         \<and> p_externalUrl p =
             JString (orEmptyString (metafieldMap (orEmpty (pn_metafields_nodes product)) ''external_url''))
         \<and> p_buttonText p =
             JString (orEmptyString (metafieldMap (orEmpty (pn_metafields_nodes product)) ''button_text''))
         \<and> p_isEnabled p =
             (metafieldMap (orEmpty (pn_metafields_nodes product)) ''is_enabled'' = Some ''true'')
         \<and> p_externalLinks p = JArray []
         \<and> \<not> p_hasMultipleLinks p
         \<and> p_hasMetafields p = (orEmpty (pn_metafields_nodes product) \<noteq> [])"
    by (simp add: loadProduct_legacy)
next
  fix v and other :: ProductNode
  assume here: "metafieldMap (orEmpty (pn_metafields_nodes product)) ''external_links'' = Some v \<and> v \<noteq> []"
    and there: "metafieldMap (orEmpty (pn_metafields_nodes other)) ''external_links'' = Some v \<and>
           metafieldMap (orEmpty (pn_metafields_nodes other)) ''hide_atc'' =
             metafieldMap (orEmpty (pn_metafields_nodes product)) ''hide_atc'' \<and>
           pn_id other = pn_id product \<and> pn_title other = pn_title product \<and>
           pn_handle other = pn_handle product"
  from here there show "loadProduct rt other = loadProduct rt product"
    by (simp add: loadProduct_new_format [of product v] loadProduct_new_format [of other v]
          split: prod.splits sum.splits)
next
  fix v links
  assume here: "metafieldMap (orEmpty (pn_metafields_nodes product)) ''external_links'' = Some v \<and> v \<noteq> []"
    and parsed: "rt_parse rt v = Some (JArray links) \<and> JNull \<notin> set links"
  have enabled: "(find (\<lambda>link. propertyOf link ''enabled'' = Some (JBool True)) links \<noteq> None) =
      (\<exists>link\<in>set links. propertyOf link ''enabled'' = Some (JBool True))"
    by (auto simp: find_None_iff)
  from here parsed show "\<exists>p. loadProduct rt product = Inr p
              \<and> p_externalLinks p = JArray links
              \<and> p_hasMultipleLinks p = (length links > 1)
              \<and> p_isEnabled p = (\<exists>link\<in>set links. propertyOf link ''enabled'' = Some (JBool True))
              \<and> p_buttonText p =
                  (case find (\<lambda>link. propertyOf link ''enabled'' = Some (JBool True)) links of
                     None \<Rightarrow> JString [] | Some link \<Rightarrow> orEmptyText (propertyOf link ''text''))
              \<and> p_externalUrl p =
                  (case find (\<lambda>link. propertyOf link ''enabled'' = Some (JBool True)) links of
                     None \<Rightarrow> JString [] | Some link \<Rightarrow> orEmptyText (propertyOf link ''url''))"
    using enabled
    by (cases "find (\<lambda>link. propertyOf link ''enabled'' = Some (JBool True)) links")
       (simp_all add: loadProduct_new_format [of product v] readExternalLinks_array greaterThanOne_def)
next
  fix v
  assume here: "metafieldMap (orEmpty (pn_metafields_nodes product)) ''external_links'' = Some v \<and> v \<noteq> []"
    and parsed: "rt_parse rt v = None"
  then show "\<exists>p. loadProduct rt product = Inr p
              \<and> p_externalLinks p = JArray [] \<and> \<not> p_isEnabled p
              \<and> p_buttonText p = JString [] \<and> p_externalUrl p = JString []"
    by (simp add: loadProduct_new_format [of product v] readExternalLinks_def greaterThanOne_def)
next
  fix v
  assume here: "metafieldMap (orEmpty (pn_metafields_nodes product)) ''external_links'' = Some v \<and> v \<noteq> []"
    and parsed: "rt_parse rt v = Some JNull"
  then show "isl (loadProduct rt product)"
    by (simp add: loadProduct_new_format [of product v] readExternalLinks_def findEnabled_def)
next
  assume "\<exists>q\<in>set allProducts. isl (loadProduct rt q)"
  then have "isl (mapProducts (loadProduct rt) allProducts)"
    by (simp add: mapProducts_throws)
  then show "configuredProductsOf rt allProducts = []"
    by (auto simp: configuredProductsOf_def split: sum.splits)
next
  assume "\<forall>q\<in>set allProducts. \<not> isl (loadProduct rt q)"
  then show "configuredProductsOf rt allProducts =
          filter p_hasMetafields (map (\<lambda>q. projr (loadProduct rt q)) allProducts)"
    by (simp add: configuredProductsOf_def mapProducts_returns)
next
  fix p inputs
  assume "ProductUpdate p inputs \<in> set (snd (snd (action admin formData (w, []))))"
  then show "\<forall>i\<in>set inputs. input_key i = ''external_links'' \<or> input_key i = ''hide_atc''"
    by (rule action_updates)
qed

text \<open>
  The links array that the loader builds for a product with only the legacy keys has no
  element; in particular it is not the one-element array of the legacy values.
\<close>

theorem legacy_links_array_is_empty:
  "''external_links'' \<notin> mf_key ` set (orEmpty (pn_metafields_nodes legacy_product))
   \<and> map p_externalLinks (configuredProductsOf runtime_example [legacy_product]) = [JArray []]
   \<and> map p_externalLinks (configuredProductsOf runtime_example [legacy_product]) \<noteq>
       [JArray [JObject [(''url'', JString ''https://old.example/mug''), (''text'', JString ''Buy''),
                         (''enabled'', JBool True)]]]
   \<and> map p_externalUrl (configuredProductsOf runtime_example [legacy_product]) =
       [JString ''https://old.example/mug'']"
  by (simp add: example_defs configuredProductsOf_def loadProduct_def metafieldMap_def orEmpty_def
        orEmptyString_def greaterThanOne_def Let_def)

theorem legacy_fallback_read_witness:
  "''external_links'' \<notin> mf_key ` set (orEmpty (pn_metafields_nodes legacy_product))
   \<and> orEmptyString (metafieldMap (orEmpty (pn_metafields_nodes legacy_product)) ''external_links'') = []
   \<and> map_sum id p_externalUrl (loadProduct runtime_example legacy_product) =
        Inr (JString ''https://old.example/mug'')
   \<and> map_sum id p_buttonText (loadProduct runtime_example legacy_product) = Inr (JString ''Buy'')
   \<and> map_sum id p_isEnabled (loadProduct runtime_example legacy_product) = Inr True
   \<and> map_sum id p_externalLinks (loadProduct runtime_example legacy_product) = Inr (JArray [])
   \<and> configuredProductsOf runtime_example [legacy_product] = [mug_loaded]
   \<and> metafieldMap (orEmpty (pn_metafields_nodes array_product)) ''external_links'' =
        Some (JSON_stringify [linkC, linkA])
   \<and> JSON_stringify [linkC, linkA] \<noteq> []
   \<and> rt_parse runtime_example (JSON_stringify [linkC, linkA]) =
        Some (JArray [jsonOfLink linkC, jsonOfLink linkA])
   \<and> JNull \<notin> set [jsonOfLink linkC, jsonOfLink linkA]
   \<and> map_sum id p_externalLinks (loadProduct runtime_example array_product) =
        Inr (JArray [jsonOfLink linkC, jsonOfLink linkA])
   \<and> map_sum id p_externalUrl (loadProduct runtime_example array_product) = Inr (JString ''https://a.com'')
   \<and> map_sum id p_hasMultipleLinks (loadProduct runtime_example array_product) = Inr True
   \<and> metafieldMap (orEmpty (pn_metafields_nodes null_product)) ''external_links'' = Some ''null''
   \<and> rt_parse runtime_example ''null'' = Some JNull
   \<and> loadProduct runtime_example null_product =
        Inl (TypeError (''Cannot read properties of null (reading '' @ [CHR 0x27] @ ''length'' @
                        [CHR 0x27] @ '')''))
   \<and> configuredProductsOf runtime_example [legacy_product, null_product] = []
   \<and> map p_id (configuredProductsOf runtime_example [legacy_product, array_product]) = [product1, product1]
   \<and> ProductUpdate product1
        [\<lparr>input_namespace = ''bl_custom_button'', input_id = None, input_key = ''external_links'',
          input_value = JSON_stringify [linkA], input_type = ''json''\<rparr>]
       \<in> set (snd (snd (action shop_admin (saveFormData product1 (editing [linkA] False))
                          (shop_unconfigured, []))))"
proof -
  have hyps: "orEmptyString (metafieldMap (orEmpty (pn_metafields_nodes legacy_product)) ''external_links'') = []"
    by (simp add: example_defs metafieldMap_def orEmptyString_def)
  have thrown: "isl (loadProduct runtime_example null_product)"
    by (simp add: example_defs loadProduct_def readExternalLinks_def findEnabled_def metafieldMap_def
          orEmptyString_def JSON_stringify_def Let_def)
  have evaluated: ?thesis
    by (simp add: example_defs form_defs action_defs configuredProductsOf_def loadProduct_def
          readExternalLinks_def findEnabled_def orEmptyText_def greaterThanOne_def metafieldMap_def
          orEmptyString_def JSON_stringify_def Let_def)
  have poisoned: "\<exists>q\<in>set [legacy_product, null_product]. isl (loadProduct runtime_example q)"
    using thrown by simp
  have "(\<exists>p. loadProduct runtime_example legacy_product = Inr p \<and> p_externalLinks p = JArray [])
      \<and> configuredProductsOf runtime_example [legacy_product, null_product] = []"
    using legacy_fallback_read [of legacy_product runtime_example "[legacy_product, null_product]"
            shop_admin "saveFormData product1 (editing [linkA] False)" shop_unconfigured]
          hyps poisoned
    by blast
  then show ?thesis
    using evaluated by -
qed

section \<open>The gate of the auto-install heuristic\<close>

lemma checkAutoInstallStatus_eq:
  "checkAutoInstallStatus admin (w, reqs) =
     ((case fst (admin QueryAutoInstallSentinel w) of
         Inl e \<Rightarrow> False
       | Inr d \<Rightarrow> orEmpty (data_currentAppInstallation_metafields_nodes d) \<noteq> []),
      (snd (admin QueryAutoInstallSentinel w), reqs @ [QueryAutoInstallSentinel]))"
  by (simp add: checkAutoInstallStatus_def graphql_def split: prod.splits sum.splits)

text \<open>
  Claim C6. When the sentinel query is answered with at least one node, or when there
  is no configured product, the auto-install section of the loader issues the sentinel
  query and nothing else (no theme is read, no file is written, the sentinel is not set
  again), and reports \<open>previously_attempted\<close> or \<open>not_attempted\<close>. Hence a second run,
  started in the state the first one left and finding the sentinel there, only asks for
  the sentinel.
\<close>

theorem auto_install_skipped:
  "((\<exists>d. fst (admin QueryAutoInstallSentinel w) = Inr d \<and>
          orEmpty (data_currentAppInstallation_metafields_nodes d) \<noteq> []) \<longrightarrow>
      loader_autoInstall admin patchTemplate configuredProducts (w, reqs) =
        ((False, ''previously_attempted''),
         (snd (admin QueryAutoInstallSentinel w), reqs @ [QueryAutoInstallSentinel])))
   \<and> (configuredProducts = [] \<longrightarrow>
        (\<exists>status. loader_autoInstall admin patchTemplate configuredProducts (w, reqs) =
           ((False, status),
            (snd (admin QueryAutoInstallSentinel w), reqs @ [QueryAutoInstallSentinel]))
         \<and> (status = ''previously_attempted'' \<or> status = ''not_attempted'')))
   \<and> (\<forall>r1 w1 reqs1 d.
         loader_autoInstall admin patchTemplate configuredProducts (w, reqs) = (r1, (w1, reqs1)) \<and>
         fst (admin QueryAutoInstallSentinel w1) = Inr d \<and>
         orEmpty (data_currentAppInstallation_metafields_nodes d) \<noteq> [] \<longrightarrow>
           loader_autoInstall admin patchTemplate configuredProducts (w1, reqs1) =
             ((False, ''previously_attempted''),
              (snd (admin QueryAutoInstallSentinel w1), reqs1 @ [QueryAutoInstallSentinel])))"
  by (auto simp: loader_autoInstall_def checkAutoInstallStatus_eq split: sum.splits)

theorem auto_install_skipped_witness:
  "loader_autoInstall shop_admin patch_example [mug_loaded] (shop_with_theme, []) =
     ((True, ''already_installed''),
      (shop_with_theme\<lparr>shop_sentinel := [''2025-01-01T00:00:00.000Z'']\<rparr>,
       [QueryAutoInstallSentinel, QueryMainThemes, QueryThemeFiles ''gid://shopify/Theme/7'',
        MetafieldsSetSentinel]))
   \<and> loader_autoInstall shop_admin patch_example [mug_loaded]
        (shop_with_theme\<lparr>shop_sentinel := [''2025-01-01T00:00:00.000Z'']\<rparr>,
         [QueryAutoInstallSentinel, QueryMainThemes, QueryThemeFiles ''gid://shopify/Theme/7'',
          MetafieldsSetSentinel]) =
       ((False, ''previously_attempted''),
        (shop_with_theme\<lparr>shop_sentinel := [''2025-01-01T00:00:00.000Z'']\<rparr>,
         [QueryAutoInstallSentinel, QueryMainThemes, QueryThemeFiles ''gid://shopify/Theme/7'',
          MetafieldsSetSentinel, QueryAutoInstallSentinel]))
   \<and> loader_autoInstall shop_admin patch_example [] (shop_with_theme, []) =
       ((False, ''not_attempted''), (shop_with_theme, [QueryAutoInstallSentinel]))"
proof -
  have hyps: "\<exists>d. fst (shop_admin QueryAutoInstallSentinel
                (shop_with_theme\<lparr>shop_sentinel := [''2025-01-01T00:00:00.000Z'']\<rparr>)) = Inr d \<and>
           orEmpty (data_currentAppInstallation_metafields_nodes d) \<noteq> []"
    by (simp add: emptyResponse_def)
  have first_run: "loader_autoInstall shop_admin patch_example [mug_loaded] (shop_with_theme, []) =
     ((True, ''already_installed''),
      (shop_with_theme\<lparr>shop_sentinel := [''2025-01-01T00:00:00.000Z'']\<rparr>,
       [QueryAutoInstallSentinel, QueryMainThemes, QueryThemeFiles ''gid://shopify/Theme/7'',
        MetafieldsSetSentinel]))"
    by (simp add: shop_with_theme_def patch_example_def loader_autoInstall_def
          checkAutoInstallStatus_def autoInstallAppBlock_def markAutoInstallComplete_def graphql_def
          emptyResponse_def)
  have evaluated: ?thesis
    by (simp add: first_run)
       (simp add: shop_with_theme_def loader_autoInstall_def checkAutoInstallStatus_def graphql_def
          emptyResponse_def)
  have "\<exists>st. loader_autoInstall shop_admin patch_example [mug_loaded]
          (shop_with_theme\<lparr>shop_sentinel := [''2025-01-01T00:00:00.000Z'']\<rparr>,
           [QueryAutoInstallSentinel, QueryMainThemes, QueryThemeFiles ''gid://shopify/Theme/7'',
            MetafieldsSetSentinel]) = ((False, ''previously_attempted''), st)"
    using auto_install_skipped
            [of shop_admin
                "shop_with_theme\<lparr>shop_sentinel := [''2025-01-01T00:00:00.000Z'']\<rparr>"
                patch_example "[mug_loaded]"
                "[QueryAutoInstallSentinel, QueryMainThemes, QueryThemeFiles ''gid://shopify/Theme/7'',
                  MetafieldsSetSentinel]"]
          hyps
    by blast
  then show ?thesis
    using evaluated by -
qed

section \<open>The parse step of the storefront script\<close>

lemmas storefront_defs = renderExternalButtons_def renderExternalButtons_try_def parseExternalLinks_def
  renderParsed_def enabledLinksOf_def isEnabledLink_def createButton_def getBlockSettings_def
  productSelector_def truthyOrUndefined_def buttonsOf_def trim_def isWhiteSpace_def

lemmas json_text_defs = JSON_stringify_def stringifyLink_def quoteJSONString_def quoteChar_def

lemma decoded_legacy:
  "decoded ''[{url=>&quot;https://a.com&quot;,text=>&quot;A&quot;,enabled=>true}]'' = JSON_stringify [linkA]"
  by (simp add: decoded_def replaceAll_def isWordChar_def isWhiteSpace_def json_text_defs linkA_def)

text \<open>
  A replacing pass. The counter only skips what is left of the last match, so a pass is
  described by what it does at the head of a text.
\<close>

lemma replaceAllFrom_drop:
  "replaceAllFrom pat rep covered str = replaceAllFrom pat rep 0 (drop covered str)"
proof (induction str arbitrary: covered)
  case Nil
  show ?case by simp
next
  case (Cons c cs)
  show ?case
  proof (cases covered)
    case 0
    then show ?thesis by simp
  next
    case (Suc k)
    then show ?thesis using Cons [of k] by simp
  qed
qed

lemma replaceAll_match:
  assumes "pat \<noteq> []"
  shows "replaceAll pat rep (pat @ str) = rep @ replaceAll pat rep str"
proof -
  obtain c cs where pat: "pat = c # cs" using assms by (cases pat) auto
  have "replaceAllFrom pat rep 0 (c # cs @ str) = rep @ replaceAllFrom pat rep (length pat - 1) (cs @ str)"
    by (simp add: pat)
  also have "replaceAllFrom pat rep (length pat - 1) (cs @ str) = replaceAllFrom pat rep 0 str"
    by (subst replaceAllFrom_drop) (simp add: pat)
  finally show ?thesis by (simp add: replaceAll_def pat)
qed

lemma replaceAll_no_match:
  "\<not> prefix pat (c # cs) \<Longrightarrow> replaceAll pat rep (c # cs) = c # replaceAll pat rep cs"
  by (simp add: replaceAll_def)

lemma replaceAll_absent:
  "\<not> str_includes str pat \<Longrightarrow> replaceAll pat rep str = str"
  by (induction str) (simp_all add: replaceAll_def)

lemma replaceAll_first:
  assumes "pat \<noteq> []" and "\<not> str_includes (butlast (before @ pat)) pat"
  shows "replaceAll pat rep (before @ pat @ str) = before @ rep @ replaceAll pat rep str"
  using assms(2)
proof (induction before)
  case Nil
  show ?case using assms(1) by (simp add: replaceAll_match)
next
  case (Cons c cs)
  have shape: "butlast ((c # cs) @ pat) = c # butlast (cs @ pat)"
    using assms(1) by simp
  from Cons.prems have "\<not> str_includes (c # butlast (cs @ pat)) pat"
    unfolding shape .
  then have no_prefix: "\<not> prefix pat (c # butlast (cs @ pat))"
    and rest: "\<not> str_includes (butlast (cs @ pat)) pat"
    by simp_all
  have "\<not> prefix pat (c # cs @ pat @ str)"
  proof
    assume here: "prefix pat (c # cs @ pat @ str)"
    have "prefix (c # butlast (cs @ pat)) (c # cs @ pat @ str)"
      by (metis append.assoc append_butlast_last_id append_is_Nil_conv assms(1) prefixI Cons_prefix_Cons prefix_order.order_refl append_Cons)
    moreover have "length pat \<le> length (c # butlast (cs @ pat))"
      by simp
    ultimately have "prefix pat (c # butlast (cs @ pat))"
      using here by (metis prefix_length_prefix)
    with no_prefix show False by simp
  qed
  then show ?case
    using Cons.IH [OF rest] by (simp add: replaceAll_no_match)
qed

text \<open>The pass that quotes the keys.\<close>

lemma quoteKeysFrom_drop:
  "quoteKeysFrom covered str = quoteKeysFrom 0 (drop covered str)"
proof (induction str arbitrary: covered)
  case Nil
  show ?case by simp
next
  case (Cons c cs)
  show ?case
  proof (cases covered)
    case 0
    then show ?thesis by simp
  next
    case (Suc k)
    then show ?thesis using Cons [of k] by simp
  qed
qed

lemma word_not_space: "isWordChar c \<Longrightarrow> \<not> isWhiteSpace c"
  by (auto simp: isWordChar_def isWhiteSpace_def Let_def)

lemma colon_not_word: "\<not> isWordChar CHR '':''"
  by (simp add: isWordChar_def)

lemma quoteKeys_key:
  assumes opener: "c = CHR ''{'' \<or> c = CHR '',''"
    and spaces: "\<forall>x\<in>set spaces. isWhiteSpace x"
    and word: "word \<noteq> []" "\<forall>x\<in>set word. isWordChar x"
  shows "quoteKeysFrom 0 (c # spaces @ word @ '':'' @ str) =
           c # spaces @ [CHR 0x22] @ word @ [CHR 0x22] @ '':'' @ quoteKeysFrom 0 str"
proof -
  obtain a as where w: "word = a # as" using word(1) by (cases word) auto
  have a: "\<not> isWhiteSpace a" using word(2) w word_not_space by simp
  have t1: "takeWhile isWhiteSpace (spaces @ word @ CHR '':'' # str) = spaces"
    using spaces a by (simp add: takeWhile_append2 w)
  have d1: "dropWhile isWhiteSpace (spaces @ word @ CHR '':'' # str) = word @ CHR '':'' # str"
    using spaces a by (simp add: dropWhile_append2 w)
  have t2: "takeWhile isWordChar (word @ CHR '':'' # str) = word"
    using word(2) colon_not_word by (simp add: takeWhile_append2)
  have d2: "dropWhile isWordChar (word @ CHR '':'' # str) = CHR '':'' # str"
    using word(2) colon_not_word by (simp add: dropWhile_append2)
  have "quoteKeysFrom (Suc (length spaces + length word)) (spaces @ word @ CHR '':'' # str) =
          quoteKeysFrom 0 str"
    by (subst quoteKeysFrom_drop) simp
  then show ?thesis
    using opener word(1) by (simp add: t1 d1 t2 d2 Let_def)
qed

lemma quoteKeys_other:
  assumes "\<not> (\<exists>spaces word str. (c = CHR ''{'' \<or> c = CHR '','') \<and> cs = spaces @ word @ '':'' @ str \<and>
                (\<forall>x\<in>set spaces. isWhiteSpace x) \<and> word \<noteq> [] \<and> (\<forall>x\<in>set word. isWordChar x))"
  shows "quoteKeysFrom 0 (c # cs) = c # quoteKeysFrom 0 cs"
proof (cases "(c = CHR ''{'' \<or> c = CHR '','') \<and> takeWhile isWordChar (dropWhile isWhiteSpace cs) \<noteq> [] \<and>
               prefix '':'' (dropWhile isWordChar (dropWhile isWhiteSpace cs))")
  case False
  then show ?thesis by (auto simp: Let_def)
next
  case True
  then obtain str where str: "dropWhile isWordChar (dropWhile isWhiteSpace cs) = '':'' @ str"
    by (auto simp: prefix_def)
  have "cs = takeWhile isWhiteSpace cs @ takeWhile isWordChar (dropWhile isWhiteSpace cs) @ '':'' @ str"
    by (metis str takeWhile_dropWhile_id)
  moreover have "\<forall>x\<in>set (takeWhile isWhiteSpace cs). isWhiteSpace x"
    by (auto dest: set_takeWhileD)
  moreover have "\<forall>x\<in>set (takeWhile isWordChar (dropWhile isWhiteSpace cs)). isWordChar x"
    by (auto dest: set_takeWhileD)
  ultimately show ?thesis using assms True by blast
qed


text \<open>The seven passes together, at the head of a text.\<close>

lemma replaceAll_neutral:
  assumes "pat \<noteq> []" and "hd pat \<notin> set before"
  shows "replaceAll pat rep (before @ str) = before @ replaceAll pat rep str"
  using assms(2)
proof (induction before)
  case Nil
  show ?case by simp
next
  case (Cons c cs)
  then have "\<not> prefix pat (c # cs @ str)"
    using assms(1) by (cases pat) auto
  with Cons show ?case by (simp add: replaceAll_no_match)
qed

lemma quoteKeys_neutral:
  "CHR ''{'' \<notin> set before \<Longrightarrow> CHR '','' \<notin> set before \<Longrightarrow>
     quoteKeysFrom 0 (before @ str) = before @ quoteKeysFrom 0 str"
  by (induction before) (auto simp: Let_def)

lemma decoded_neutral:
  assumes "set before \<inter> {CHR ''&'', CHR ''='', CHR ''{'', CHR '',''} = {}"
  shows "decoded (before @ str) = before @ decoded str"
proof -
  have "CHR ''&'' \<notin> set before" "CHR ''='' \<notin> set before" "CHR ''{'' \<notin> set before"
    "CHR '','' \<notin> set before"
    using assms by auto
  then show ?thesis
    by (simp add: decoded_def replaceAll_neutral quoteKeys_neutral)
qed

lemma decoded_quot: "decoded (''&quot;'' @ str) = [CHR 0x22] @ decoded str"
  by (simp add: decoded_def replaceAll_def replaceAllFrom_drop [of _ _ "Suc _"])

lemma decoded_apos: "decoded (''&#39;'' @ str) = [CHR 0x27] @ decoded str"
  by (simp add: decoded_def replaceAll_def replaceAllFrom_drop [of _ _ "Suc _"])

lemma decoded_lt: "decoded (''&lt;'' @ str) = ''<'' @ decoded str"
  by (simp add: decoded_def replaceAll_def replaceAllFrom_drop [of _ _ "Suc _"])

lemma decoded_gt: "decoded (''&gt;'' @ str) = ''>'' @ decoded str"
  by (simp add: decoded_def replaceAll_def replaceAllFrom_drop [of _ _ "Suc _"])

lemma decoded_arrow: "decoded (''=>'' @ str) = '':'' @ decoded str"
  by (simp add: decoded_def replaceAll_def replaceAllFrom_drop [of _ _ "Suc _"])

lemma replaceAll_head:
  assumes "rep \<noteq> []" and "replaceAll pat rep str = x # out"
  shows "x = hd rep \<or> (\<exists>cs. str = x # cs)"
proof (cases str)
  case Nil
  with assms(2) show ?thesis by (simp add: replaceAll_def)
next
  case (Cons c cs)
  with assms show ?thesis
    by (cases rep) (auto simp: replaceAll_def split: if_splits)
qed

lemma decoded_amp:
  assumes "\<not> prefix ''l'' str" and "\<not> prefix ''g'' str"
  shows "decoded (''&amp;'' @ str) = ''&'' @ decoded str"
proof -
  define s1 where "s1 = replaceAll ''&quot;'' [CHR 0x22] str"
  define s2 where "s2 = replaceAll ''&#39;'' [CHR 0x27] s1"
  define s3 where "s3 = replaceAll ''&amp;'' ''&'' s2"
  define s4 where "s4 = replaceAll ''&lt;'' ''<'' s3"
  have h1: "\<not> prefix ''l'' s1 \<and> \<not> prefix ''g'' s1"
    using assms replaceAll_head [of "[CHR 0x22]" "''&quot;''" str] unfolding s1_def
    by (cases "replaceAll ''&quot;'' [CHR 0x22] str") auto
  have h2: "\<not> prefix ''l'' s2 \<and> \<not> prefix ''g'' s2"
    using h1 replaceAll_head [of "[CHR 0x27]" "''&#39;''" s1] unfolding s2_def
    by (cases "replaceAll ''&#39;'' [CHR 0x27] s1") auto
  have h3: "\<not> prefix ''l'' s3 \<and> \<not> prefix ''g'' s3"
    using h2 replaceAll_head [of "''&''" "''&amp;''" s2] unfolding s3_def
    by (cases "replaceAll ''&amp;'' ''&'' s2") auto
  have h4: "\<not> prefix ''g'' s4"
    using h3 replaceAll_head [of "''<''" "''&lt;''" s3] unfolding s4_def
    by (cases "replaceAll ''&lt;'' ''<'' s3") auto
  have a1: "replaceAll ''&quot;'' [CHR 0x22] (''&amp;'' @ str) = ''&amp;'' @ s1"
    by (simp add: s1_def replaceAll_def)
  have a2: "replaceAll ''&#39;'' [CHR 0x27] (''&amp;'' @ s1) = ''&amp;'' @ s2"
    by (simp add: s2_def replaceAll_def)
  have a3: "replaceAll ''&amp;'' ''&'' (''&amp;'' @ s2) = ''&'' @ s3"
    unfolding s3_def by (rule replaceAll_match) simp
  have a4: "replaceAll ''&lt;'' ''<'' (''&'' @ s3) = ''&'' @ s4"
    using h3 by (cases s3) (auto simp: s4_def replaceAll_def)
  have a5: "replaceAll ''&gt;'' ''>'' (''&'' @ s4) = ''&'' @ replaceAll ''&gt;'' ''>'' s4"
    using h4 by (cases s4) (auto simp: replaceAll_def)
  have "decoded (''&amp;'' @ str) =
          quoteKeysFrom 0 (replaceAll ''=>'' '':'' (''&'' @ replaceAll ''&gt;'' ''>'' s4))"
    unfolding decoded_def a1 a2 a3 a4 a5 ..
  also have "\<dots> = ''&'' @ quoteKeysFrom 0 (replaceAll ''=>'' '':'' (replaceAll ''&gt;'' ''>'' s4))"
    by (simp add: replaceAll_def)
  also have "\<dots> = ''&'' @ decoded str"
    by (simp add: decoded_def s1_def s2_def s3_def s4_def)
  finally show ?thesis .
qed

lemma decoded_key:
  assumes opener: "c = CHR ''{'' \<or> c = CHR '',''"
    and spaces: "\<forall>x\<in>set spaces. isWhiteSpace x"
    and word: "word \<noteq> []" "\<forall>x\<in>set word. isWordChar x"
  shows "decoded (c # spaces @ word @ '':'' @ str) =
           c # spaces @ [CHR 0x22] @ word @ [CHR 0x22] @ '':'' @ decoded str"
    and "decoded (c # spaces @ word @ ''=>'' @ str) =
           c # spaces @ [CHR 0x22] @ word @ [CHR 0x22] @ '':'' @ decoded str"
proof -
  have sp: "CHR ''&'' \<notin> set spaces" "CHR ''='' \<notin> set spaces"
    using spaces by (auto simp: isWhiteSpace_def)
  have wd: "CHR ''&'' \<notin> set word" "CHR ''='' \<notin> set word"
    using word(2) by (auto simp: isWordChar_def)
  have neutral: "pat \<noteq> [] \<Longrightarrow> hd pat = CHR ''&'' \<or> hd pat = CHR ''='' \<Longrightarrow>
      replaceAll pat rep (c # spaces @ word @ rest) = c # spaces @ word @ replaceAll pat rep rest"
    for pat rep rest
    using replaceAll_neutral [of pat "c # spaces @ word" rep rest] opener sp wd by auto
  have colon: "pat \<noteq> [] \<Longrightarrow> hd pat = CHR ''&'' \<or> hd pat = CHR ''='' \<Longrightarrow>
      replaceAll pat rep (CHR '':'' # rest) = CHR '':'' # replaceAll pat rep rest" for pat rep rest
    by (cases pat) (auto simp: replaceAll_def)
  have key: "quoteKeysFrom 0 (c # spaces @ word @ CHR '':'' # rest) =
      c # spaces @ [CHR 0x22] @ word @ [CHR 0x22] @ '':'' @ quoteKeysFrom 0 rest" for rest
    using quoteKeys_key [OF opener spaces word, of rest] by simp
  show "decoded (c # spaces @ word @ '':'' @ str) =
           c # spaces @ [CHR 0x22] @ word @ [CHR 0x22] @ '':'' @ decoded str"
    by (simp add: decoded_def neutral colon key del: quoteKeysFrom.simps)
  have arrow: "replaceAll ''&quot;'' rep (CHR ''='' # CHR ''>'' # rest) =
        CHR ''='' # CHR ''>'' # replaceAll ''&quot;'' rep rest"
      "replaceAll ''&#39;'' rep (CHR ''='' # CHR ''>'' # rest) =
        CHR ''='' # CHR ''>'' # replaceAll ''&#39;'' rep rest"
      "replaceAll ''&amp;'' rep (CHR ''='' # CHR ''>'' # rest) =
        CHR ''='' # CHR ''>'' # replaceAll ''&amp;'' rep rest"
      "replaceAll ''&lt;'' rep (CHR ''='' # CHR ''>'' # rest) =
        CHR ''='' # CHR ''>'' # replaceAll ''&lt;'' rep rest"
      "replaceAll ''&gt;'' rep (CHR ''='' # CHR ''>'' # rest) =
        CHR ''='' # CHR ''>'' # replaceAll ''&gt;'' rep rest"
      "replaceAll ''=>'' '':'' (CHR ''='' # CHR ''>'' # rest) = CHR '':'' # replaceAll ''=>'' '':'' rest"
    for rep rest
    by (simp_all add: replaceAll_def)
  show "decoded (c # spaces @ word @ ''=>'' @ str) =
           c # spaces @ [CHR 0x22] @ word @ [CHR 0x22] @ '':'' @ decoded str"
    by (simp add: decoded_def neutral arrow key del: quoteKeysFrom.simps)
qed


text \<open>
  Claim C4. \<open>renderExternalButtons\<close> answers for every string, whatever \<open>JSON.parse\<close>
  does with it: the exception of its \<open>try\<close> body, if any, is dropped. For the empty
  string, for \<open>[]\<close>, for a blank string and for a string that neither the strict parse
  nor the parse of the decoded text accepts, the container is left without any element.
  The strict parse comes first; the text is decoded and parsed again only when the
  strict parse fails.

  The decoded text is the result of seven passes, in this order: the entities \<open>&quot;\<close>,
  \<open>&#39;\<close>, \<open>&amp;\<close>, \<open>&lt;\<close> and \<open>&gt;\<close>, then \<open>=>\<close>, then the keys. A replacing pass leaves
  a text without the pattern as it is, and otherwise replaces the first occurrence and
  goes on behind it. The last pass puts quotes around a word that stands between \<open>{\<close>
  or \<open>,\<close> (and white space) and \<open>:\<close>, goes on behind the \<open>:\<close>, and copies every other
  character. Hence, at the head of the text, an entity is decoded (\<open>&amp;\<close> unless \<open>l\<close> or
  \<open>g\<close> follows, where \<open>&amp;lt;\<close> is decoded twice), \<open>=>\<close> becomes \<open>:\<close>, a bare key before
  \<open>:\<close> or \<open>=>\<close> is quoted, and characters other than \<open>&\<close>, \<open>=\<close>, \<open>{\<close> and \<open>,\<close> are copied.
\<close>

theorem storefront_parse_tolerant:
  "renderExternalButtons env children (Some []) productId = []
   \<and> renderExternalButtons env children (Some ''[]'') productId = []
   \<and> (trim d = [] \<longrightarrow> renderExternalButtons env children (Some d) productId = [])
   \<and> (env_parse env d = None \<and> env_parse env (decoded d) = None \<longrightarrow>
        renderExternalButtons env children (Some d) productId = [])
   \<and> (d \<noteq> [] \<and> trim d \<noteq> [] \<and> d \<noteq> ''[]'' \<longrightarrow>
        renderExternalButtons_try env children (Some d) productId =
          (case env_parse env d of
             Some externalLinks \<Rightarrow> renderParsed env externalLinks productId
           | None \<Rightarrow>
               (case env_parse env (decoded d) of
                  Some externalLinks \<Rightarrow> renderParsed env externalLinks productId
                | None \<Rightarrow> (None, []))))
   \<and> decoded d =
       quoteKeysFrom 0
         (replaceAll ''=>'' '':''
            (replaceAll ''&gt;'' ''>''
               (replaceAll ''&lt;'' ''<''
                  (replaceAll ''&amp;'' ''&''
                     (replaceAll ''&#39;'' [CHR 0x27]
                        (replaceAll ''&quot;'' [CHR 0x22] d))))))
   \<and> (\<not> str_includes str pat \<longrightarrow> replaceAll pat rep str = str)
   \<and> (pat \<noteq> [] \<and> \<not> str_includes (butlast (before @ pat)) pat \<longrightarrow>
        replaceAll pat rep (before @ pat @ str) = before @ rep @ replaceAll pat rep str)
   \<and> quoteKeysFrom 0 [] = []
   \<and> ((c = CHR ''{'' \<or> c = CHR '','') \<and> (\<forall>x\<in>set spaces. isWhiteSpace x) \<and>
       word \<noteq> [] \<and> (\<forall>x\<in>set word. isWordChar x) \<longrightarrow>
        quoteKeysFrom 0 (c # spaces @ word @ '':'' @ str) =
          c # spaces @ [CHR 0x22] @ word @ [CHR 0x22] @ '':'' @ quoteKeysFrom 0 str
      \<and> decoded (c # spaces @ word @ '':'' @ str) =
          c # spaces @ [CHR 0x22] @ word @ [CHR 0x22] @ '':'' @ decoded str
      \<and> decoded (c # spaces @ word @ ''=>'' @ str) =
          c # spaces @ [CHR 0x22] @ word @ [CHR 0x22] @ '':'' @ decoded str)
   \<and> (\<not> (\<exists>ws w rest. (c = CHR ''{'' \<or> c = CHR '','') \<and> cs = ws @ w @ '':'' @ rest \<and>
            (\<forall>x\<in>set ws. isWhiteSpace x) \<and> w \<noteq> [] \<and> (\<forall>x\<in>set w. isWordChar x)) \<longrightarrow>
        quoteKeysFrom 0 (c # cs) = c # quoteKeysFrom 0 cs)
   \<and> decoded (''&quot;'' @ str) = [CHR 0x22] @ decoded str
   \<and> decoded (''&#39;'' @ str) = [CHR 0x27] @ decoded str
   \<and> (\<not> prefix ''l'' str \<and> \<not> prefix ''g'' str \<longrightarrow> decoded (''&amp;'' @ str) = ''&'' @ decoded str)
   \<and> decoded (''&lt;'' @ str) = ''<'' @ decoded str
   \<and> decoded (''&gt;'' @ str) = ''>'' @ decoded str
   \<and> decoded (''=>'' @ str) = '':'' @ decoded str
   \<and> (set before \<inter> {CHR ''&'', CHR ''='', CHR ''{'', CHR '',''} = {} \<longrightarrow>
        decoded (before @ str) = before @ decoded str)"
proof (intro conjI impI)
  show "renderExternalButtons env children (Some []) productId = []"
    and "renderExternalButtons env children (Some ''[]'') productId = []"
    by (simp_all add: renderExternalButtons_def renderExternalButtons_try_def)
  show "renderExternalButtons env children (Some d) productId = []" if "trim d = []"
    using that by (simp add: renderExternalButtons_def renderExternalButtons_try_def)
  show "renderExternalButtons env children (Some d) productId = []"
    if "env_parse env d = None \<and> env_parse env (decoded d) = None"
    using that
    by (simp add: renderExternalButtons_def renderExternalButtons_try_def parseExternalLinks_def)
  show "renderExternalButtons_try env children (Some d) productId =
          (case env_parse env d of
             Some externalLinks \<Rightarrow> renderParsed env externalLinks productId
           | None \<Rightarrow>
               (case env_parse env (decoded d) of
                  Some externalLinks \<Rightarrow> renderParsed env externalLinks productId
                | None \<Rightarrow> (None, [])))"
    if "d \<noteq> [] \<and> trim d \<noteq> [] \<and> d \<noteq> ''[]''"
    using that
    by (simp add: renderExternalButtons_try_def parseExternalLinks_def split: option.splits)
  show "decoded d =
       quoteKeysFrom 0
         (replaceAll ''=>'' '':''
            (replaceAll ''&gt;'' ''>''
               (replaceAll ''&lt;'' ''<''
                  (replaceAll ''&amp;'' ''&''
                     (replaceAll ''&#39;'' [CHR 0x27]
                        (replaceAll ''&quot;'' [CHR 0x22] d))))))"
    by (simp add: decoded_def)
  show "replaceAll pat rep str = str" if "\<not> str_includes str pat"
    using that by (rule replaceAll_absent)
  show "replaceAll pat rep (before @ pat @ str) = before @ rep @ replaceAll pat rep str"
    if "pat \<noteq> [] \<and> \<not> str_includes (butlast (before @ pat)) pat"
    using that by (simp add: replaceAll_first)
  show "quoteKeysFrom 0 [] = []"
    by simp
  show "quoteKeysFrom 0 (c # cs) = c # quoteKeysFrom 0 cs"
    if "\<not> (\<exists>ws w rest. (c = CHR ''{'' \<or> c = CHR '','') \<and> cs = ws @ w @ '':'' @ rest \<and>
            (\<forall>x\<in>set ws. isWhiteSpace x) \<and> w \<noteq> [] \<and> (\<forall>x\<in>set w. isWordChar x))"
    using that by (rule quoteKeys_other)
  show "decoded (''&quot;'' @ str) = [CHR 0x22] @ decoded str"
    by (rule decoded_quot)
  show "decoded (''&#39;'' @ str) = [CHR 0x27] @ decoded str"
    by (rule decoded_apos)
  show "decoded (''&amp;'' @ str) = ''&'' @ decoded str" if "\<not> prefix ''l'' str \<and> \<not> prefix ''g'' str"
    using that decoded_amp by blast
  show "decoded (''&lt;'' @ str) = ''<'' @ decoded str"
    by (rule decoded_lt)
  show "decoded (''&gt;'' @ str) = ''>'' @ decoded str"
    by (rule decoded_gt)
  show "decoded (''=>'' @ str) = '':'' @ decoded str"
    by (rule decoded_arrow)
  show "decoded (before @ str) = before @ decoded str"
    if "set before \<inter> {CHR ''&'', CHR ''='', CHR ''{'', CHR '',''} = {}"
    using that by (rule decoded_neutral)
next
  assume key: "(c = CHR ''{'' \<or> c = CHR '','') \<and> (\<forall>x\<in>set spaces. isWhiteSpace x) \<and>
       word \<noteq> [] \<and> (\<forall>x\<in>set word. isWordChar x)"
  then have opener: "c = CHR ''{'' \<or> c = CHR '',''" and spaces: "\<forall>x\<in>set spaces. isWhiteSpace x"
    and word: "word \<noteq> []" "\<forall>x\<in>set word. isWordChar x"
    by blast+
  show "quoteKeysFrom 0 (c # spaces @ word @ '':'' @ str) =
          c # spaces @ [CHR 0x22] @ word @ [CHR 0x22] @ '':'' @ quoteKeysFrom 0 str"
    using opener spaces word by (rule quoteKeys_key)
  show "decoded (c # spaces @ word @ '':'' @ str) =
          c # spaces @ [CHR 0x22] @ word @ [CHR 0x22] @ '':'' @ decoded str"
    using opener spaces word by (rule decoded_key)
  show "decoded (c # spaces @ word @ ''=>'' @ str) =
          c # spaces @ [CHR 0x22] @ word @ [CHR 0x22] @ '':'' @ decoded str"
    using opener spaces word by (rule decoded_key)
qed

theorem storefront_parse_tolerant_witness:
  "env_parse browser_example ''{oops'' = None \<and> env_parse browser_example (decoded ''{oops'') = None
   \<and> renderExternalButtons browser_example [ButtonEl button_A] (Some ''{oops'') (Some ''1'') = []
   \<and> renderExternalButtons browser_example [ButtonEl button_A] (Some ''   '') (Some ''1'') = []
   \<and> env_parse browser_example legacy_payload = None
   \<and> decoded legacy_payload = JSON_stringify [linkA]
   \<and> renderExternalButtons browser_example [] (Some legacy_payload) (Some ''1'') = [ButtonEl button_A]
   \<and> renderExternalButtons browser_example [] (Some (JSON_stringify [linkA])) (Some ''1'') =
       [ButtonEl button_A]
   \<and> \<not> str_includes ''{url'' ''=>''
   \<and> replaceAll ''=>'' '':'' ''{url=>1,text=>2}'' = ''{url:1,text:2}''
   \<and> quoteKeysFrom 0 ''{url:1, text:2}'' =
       ''{'' @ [CHR 0x22] @ ''url'' @ [CHR 0x22] @ '':1, '' @ [CHR 0x22] @ ''text'' @ [CHR 0x22] @ '':2}''
   \<and> decoded ''{url=>1}'' = ''{'' @ [CHR 0x22] @ ''url'' @ [CHR 0x22] @ '':1}''
   \<and> decoded ''&lt;b&gt; &amp; &#39;c&#39;'' = ''<b> & '' @ [CHR 0x27] @ ''c'' @ [CHR 0x27]
   \<and> decoded ''&amp;lt;'' = ''<''
   \<and> decoded ''[1, 2]'' = ''[1, 2]''"
proof -
  have garbage: "decoded ''{oops'' = ''{oops''"
    by (simp add: decoded_def replaceAll_def isWordChar_def isWhiteSpace_def)
  have hyps: "env_parse browser_example ''{oops'' = None \<and>
      env_parse browser_example (decoded ''{oops'') = None"
    by (simp add: garbage example_defs json_text_defs)
  have first: "''=>'' \<noteq> [] \<and> \<not> str_includes (butlast (''{url'' @ ''=>'')) ''=>''"
    by simp
  have key: "(CHR ''{'' = CHR ''{'' \<or> CHR ''{'' = CHR '','') \<and> (\<forall>x\<in>set []. isWhiteSpace x) \<and>
       ''url'' \<noteq> [] \<and> (\<forall>x\<in>set ''url''. isWordChar x)"
    by (simp add: isWordChar_def)
  have texts: "decoded ''{url=>1}'' = ''{'' @ [CHR 0x22] @ ''url'' @ [CHR 0x22] @ '':1}''"
      "decoded ''&lt;b&gt; &amp; &#39;c&#39;'' = ''<b> & '' @ [CHR 0x27] @ ''c'' @ [CHR 0x27]"
      "decoded ''&amp;lt;'' = ''<''"
      "decoded ''[1, 2]'' = ''[1, 2]''"
      "replaceAll ''=>'' '':'' ''{url=>1,text=>2}'' = ''{url:1,text:2}''"
      "quoteKeysFrom 0 ''{url:1, text:2}'' =
         ''{'' @ [CHR 0x22] @ ''url'' @ [CHR 0x22] @ '':1, '' @ [CHR 0x22] @ ''text'' @ [CHR 0x22] @ '':2}''"
    by (simp_all add: decoded_def replaceAll_def isWordChar_def isWhiteSpace_def)
  have evaluated: ?thesis
    by (simp add: texts garbage decoded_legacy storefront_defs example_defs json_text_defs
          isWordChar_def)
  have "renderExternalButtons browser_example [ButtonEl button_A] (Some ''{oops'') (Some ''1'') = []
      \<and> replaceAll ''=>'' '':'' (''{url'' @ ''=>'' @ ''1}'') =
          ''{url'' @ '':'' @ replaceAll ''=>'' '':'' ''1}''
      \<and> decoded (CHR ''{'' # [] @ ''url'' @ ''=>'' @ ''1}'') =
          CHR ''{'' # [] @ [CHR 0x22] @ ''url'' @ [CHR 0x22] @ '':'' @ decoded ''1}''"
    using storefront_parse_tolerant
            [where env = browser_example and children = "[ButtonEl button_A]"
               and productId = "Some ''1''" and d = "''{oops''" and pat = "''=>''" and rep = "'':''"
               and before = "''{url''" and str = "''1}''" and c = "CHR ''{''" and spaces = "[]"
               and word = "''url''"]
          hyps first key
    by blast
  then show ?thesis
    using evaluated by -
qed

section \<open>The entries the storefront renders\<close>

lemma getProperty_propertyOf: "link \<noteq> JNull \<Longrightarrow> getProperty link name = Inr (propertyOf link name)"
  by (cases link) simp_all

lemma getProperty_null: "getProperty JNull name = Inl (TypeError ''Cannot read properties of null'')"
  by simp

lemma isEnabledLink_filtered: "entryFiltered link \<Longrightarrow> isEnabledLink link = Inr (entryShown link)"
  by (auto simp: entryFiltered_def entryShown_def isEnabledLink_def getProperty_propertyOf
        isString_def isNonBlankString_def truthyOrUndefined_def
      split: option.splits json.splits if_splits)

lemma isEnabledLink_throws: "\<not> entryFiltered link \<Longrightarrow> isl (isEnabledLink link)"
  by (cases "link = JNull")
     (auto simp: entryFiltered_def isEnabledLink_def getProperty_propertyOf
        isString_def truthyOrUndefined_def
      split: option.splits json.splits if_splits)

lemma filterLinks_filtered: "list_all entryFiltered links \<Longrightarrow> filterLinks links = Inr (filter entryShown links)"
  by (induction links) (simp_all add: isEnabledLink_filtered)

lemma filterLinks_throws: "\<not> list_all entryFiltered links \<Longrightarrow> isl (filterLinks links)"
proof (induction links)
  case Nil
  then show ?case by simp
next
  case (Cons link links)
  show ?case
  proof (cases "entryFiltered link")
    case True
    with Cons show ?thesis
      by (auto simp: isEnabledLink_filtered split: sum.splits)
  next
    case False
    then have "isl (isEnabledLink link)" by (rule isEnabledLink_throws)
    then show ?thesis by (auto split: sum.splits)
  qed
qed

lemma entryShown_not_null: "entryShown link \<Longrightarrow> link \<noteq> JNull"
  by (auto simp: entryShown_def truthyOrUndefined_def)

lemma createButton_ok:
  assumes "createButton env (JObject []) 0 productId = Inr b" and "link \<noteq> JNull"
  shows "createButton env link index productId =
     Inr (b\<lparr>data_external_url := propertyOf link ''url'', data_button_index := index,
            textContent := labelOf link\<rparr>)"
  using assms
  by (auto simp: createButton_def getProperty_propertyOf labelOf_def Let_def
      split: sum.splits setting.splits option.splits)

lemma createButton_fails:
  assumes "createButton env (JObject []) 0 productId = Inl e" and "link \<noteq> JNull"
  shows "createButton env link index productId = Inl e"
  using assms
  by (auto simp: createButton_def getProperty_propertyOf Let_def
      split: sum.splits setting.splits option.splits)

lemma createButton_selector:
  "createButton env (JObject []) 0 productId = Inr b \<Longrightarrow>
   \<exists>container. env_querySelector env (productSelector productId) = Inr container"
  by (auto simp: createButton_def split: sum.splits)

lemma createButton_selector_throws:
  "env_querySelector env (productSelector productId) = Inl e \<Longrightarrow>
   createButton env (JObject []) 0 productId = Inl e"
  by (simp add: createButton_def)

lemma appendButtons_all:
  assumes "createButton env (JObject []) 0 productId = Inr b"
    and "\<forall>link\<in>set links. link \<noteq> JNull"
  shows "appendButtons env productId index links children =
     (None, children @ map (\<lambda>(i, link). ButtonEl (b\<lparr>data_external_url := propertyOf link ''url'',
                data_button_index := i, textContent := labelOf link\<rparr>)) (enumerate index links))"
  using assms(2)
proof (induction links arbitrary: index children)
  case Nil
  then show ?case by simp
next
  case (Cons link links)
  then show ?case
    by (simp add: createButton_ok [OF assms(1)])
qed

lemma appendButtons_throws:
  assumes "createButton env (JObject []) 0 productId = Inl e"
    and "link \<noteq> JNull"
  shows "appendButtons env productId index (link # links) children = (Some e, children)"
  using assms by (simp add: createButton_fails [OF assms])

lemma buttonsOf_append: "buttonsOf (xs @ ys) = buttonsOf xs @ buttonsOf ys"
  by (simp add: buttonsOf_def)

lemma buttonsOf_buttons: "buttonsOf (map (\<lambda>x. ButtonEl (f x)) xs) = map f xs"
  by (induction xs) (simp_all add: buttonsOf_def)

lemma buttonsOf_simps [simp]: "buttonsOf [] = []" "buttonsOf [NoticeEl n] = []"
  by (simp_all add: buttonsOf_def)

lemma renderParsed_buttons:
  assumes filtered: "list_all entryFiltered links"
    and settings: "createButton env (JObject []) 0 productId = Inr b"
  shows "buttonsOf (snd (renderParsed env (JArray links) productId)) =
     map (\<lambda>(i, link). b\<lparr>data_external_url := propertyOf link ''url'',
                data_button_index := i, textContent := labelOf link\<rparr>)
       (enumerate 0 (filter entryShown links))"
proof -
  let ?mk = "\<lambda>x. (case x of (i, link) \<Rightarrow> b\<lparr>data_external_url := propertyOf link ''url'',
                data_button_index := i, textContent := labelOf link\<rparr>)"
  let ?shown = "filter entryShown links"
  obtain container where sel: "env_querySelector env (productSelector productId) = Inr container"
    using createButton_selector [OF settings] by blast
  have nonnull: "\<forall>link\<in>set ?shown. link \<noteq> JNull"
    by (simp add: entryShown_not_null)
  have app: "appendButtons env productId 0 ?shown [] = (None, map (\<lambda>x. ButtonEl (?mk x)) (enumerate 0 ?shown))"
    using appendButtons_all [OF settings nonnull, of 0 "[]"] by (simp add: case_prod_beta)
  have plain: "buttonsOf (map (\<lambda>x. ButtonEl (?mk x)) (enumerate 0 ?shown)) = map ?mk (enumerate 0 ?shown)"
    by (rule buttonsOf_buttons)
  show ?thesis
  proof (cases "?shown = []")
    case True
    then show ?thesis
      by (simp add: renderParsed_def enabledLinksOf_def filterLinks_filtered [OF filtered])
  next
    case False
    then show ?thesis
      by (simp add: renderParsed_def enabledLinksOf_def filterLinks_filtered [OF filtered] sel app
            plain buttonsOf_append Let_def
          split: option.splits)
  qed
qed

lemma renderParsed_filter_throws:
  assumes "\<not> list_all entryFiltered links"
  shows "snd (renderParsed env (JArray links) productId) = []"
  using filterLinks_throws [OF assms]
  by (auto simp: renderParsed_def enabledLinksOf_def split: sum.splits)

lemma renderParsed_button_throws:
  assumes "isl (createButton env (JObject []) 0 productId)"
  shows "snd (renderParsed env (JArray links) productId) = []"
proof (cases "list_all entryFiltered links")
  case False
  then show ?thesis by (rule renderParsed_filter_throws)
next
  case True
  obtain e where e: "createButton env (JObject []) 0 productId = Inl e"
    using assms by (cases "createButton env (JObject []) 0 productId") auto
  show ?thesis
  proof (cases "filter entryShown links")
    case Nil
    then show ?thesis
      by (simp add: renderParsed_def enabledLinksOf_def filterLinks_filtered [OF True])
  next
    case (Cons link rest)
    then have "entryShown link" by (metis filter_eq_ConsD)
    then have "link \<noteq> JNull" by (rule entryShown_not_null)
    then show ?thesis
      by (simp add: renderParsed_def enabledLinksOf_def filterLinks_filtered [OF True] Cons
            createButton_fails [OF e] Let_def
          split: sum.splits)
  qed
qed

lemma strict_when_boolean:
  "list_all (\<lambda>link. \<exists>b. propertyOf link ''enabled'' = Some (JBool b)) links \<Longrightarrow>
   filter entryShown links = filter entryStrictlyEnabled links"
  by (induction links) (auto simp: entryShown_def entryStrictlyEnabled_def truthyOrUndefined_def)

lemma map_snd_enumerate_fun: "map (\<lambda>x. f (snd x)) (enumerate n xs) = map f xs"
  by (induction xs arbitrary: n) simp_all

lemma map_fst_enumerate_upt: "map (\<lambda>x. fst x) (enumerate n xs) = [n ..< n + length xs]"
  by (simp add: map_fst_enumerate)

text \<open>
  Claim C3, as the script has it. For a parsed array in which every entry lets the filter
  run, and when creating a button for the product does not throw (the selector is
  accepted and the \<open>button_preset\<close> setting is a text), the buttons are, in the order of
  the array, those of the entries whose \<open>enabled\<close> is truthy and whose \<open>url\<close> is a string
  that is not blank: one button each, numbered from 0, with the entry's url and label.
  When every entry has a boolean \<open>enabled\<close>, these are the entries with
  \<open>enabled === true\<close>. When an entry makes the filter throw, or creating a button throws,
  nothing is rendered.
\<close>

theorem storefront_renders_enabled_links:
  "(list_all entryFiltered links \<and> \<not> isl (createButton env (JObject []) 0 productId) \<longrightarrow>
      map data_external_url (buttonsOf (snd (renderParsed env (JArray links) productId))) =
        map (\<lambda>link. propertyOf link ''url'') (filter entryShown links)
    \<and> map textContent (buttonsOf (snd (renderParsed env (JArray links) productId))) =
        map labelOf (filter entryShown links)
    \<and> map data_button_index (buttonsOf (snd (renderParsed env (JArray links) productId))) =
        [0 ..< length (filter entryShown links)])
   \<and> (list_all (\<lambda>link. \<exists>b. propertyOf link ''enabled'' = Some (JBool b)) links \<longrightarrow>
        filter entryShown links = filter entryStrictlyEnabled links)
   \<and> (\<not> list_all entryFiltered links \<longrightarrow> snd (renderParsed env (JArray links) productId) = [])
   \<and> (isl (createButton env (JObject []) 0 productId) \<longrightarrow>
        snd (renderParsed env (JArray links) productId) = [])"
proof (intro conjI impI)
  assume a: "list_all entryFiltered links \<and> \<not> isl (createButton env (JObject []) 0 productId)"
  then obtain b where b: "createButton env (JObject []) 0 productId = Inr b"
    by (cases "createButton env (JObject []) 0 productId") auto
  from a have filtered: "list_all entryFiltered links" by simp
  note buttons = renderParsed_buttons [OF filtered b]
  show "map data_external_url (buttonsOf (snd (renderParsed env (JArray links) productId))) =
        map (\<lambda>link. propertyOf link ''url'') (filter entryShown links)"
    by (simp add: buttons case_prod_beta o_def
          map_snd_enumerate_fun [of "\<lambda>link. propertyOf link ''url''"])
  show "map textContent (buttonsOf (snd (renderParsed env (JArray links) productId))) =
        map labelOf (filter entryShown links)"
    by (simp add: buttons case_prod_beta o_def map_snd_enumerate_fun [of labelOf])
  show "map data_button_index (buttonsOf (snd (renderParsed env (JArray links) productId))) =
        [0 ..< length (filter entryShown links)]"
    by (simp add: buttons case_prod_beta o_def map_fst_enumerate_upt)
next
  assume "list_all (\<lambda>link. \<exists>b. propertyOf link ''enabled'' = Some (JBool b)) links"
  then show "filter entryShown links = filter entryStrictlyEnabled links"
    by (rule strict_when_boolean)
next
  assume "\<not> list_all entryFiltered links"
  then show "snd (renderParsed env (JArray links) productId) = []"
    by (rule renderParsed_filter_throws)
next
  assume "isl (createButton env (JObject []) 0 productId)"
  then show "snd (renderParsed env (JArray links) productId) = []"
    by (rule renderParsed_button_throws)
qed

theorem storefront_renders_enabled_links_witness:
  "list_all entryFiltered [jsonOfLink linkA, jsonOfLink linkBlank, jsonOfLink linkC]
   \<and> \<not> isl (createButton browser_example (JObject []) 0 (Some ''1''))
   \<and> filter entryShown [jsonOfLink linkA, jsonOfLink linkBlank, jsonOfLink linkC] = [jsonOfLink linkA]
   \<and> filter entryStrictlyEnabled [jsonOfLink linkA, jsonOfLink linkBlank, jsonOfLink linkC] =
       [jsonOfLink linkA]
   \<and> snd (renderParsed browser_example
             (JArray [jsonOfLink linkA, jsonOfLink linkBlank, jsonOfLink linkC]) (Some ''1'')) =
       [ButtonEl button_A]
   \<and> \<not> list_all entryFiltered [JNull, jsonOfLink linkA]
   \<and> snd (renderParsed browser_example (JArray [JNull, jsonOfLink linkA]) (Some ''1'')) = []"
proof -
  have hyps: "list_all entryFiltered [jsonOfLink linkA, jsonOfLink linkBlank, jsonOfLink linkC] \<and>
      \<not> isl (createButton browser_example (JObject []) 0 (Some ''1''))"
    by (simp add: storefront_defs example_defs entryFiltered_def isString_def)
  have broken: "\<not> list_all entryFiltered [JNull, jsonOfLink linkA]"
    by (simp add: entryFiltered_def)
  have evaluated: ?thesis
    by (simp add: storefront_defs example_defs entryFiltered_def entryShown_def
          entryStrictlyEnabled_def isString_def isNonBlankString_def)
  have "map data_button_index
          (buttonsOf (snd (renderParsed browser_example
             (JArray [jsonOfLink linkA, jsonOfLink linkBlank, jsonOfLink linkC]) (Some ''1'')))) =
        [0 ..< length (filter entryShown [jsonOfLink linkA, jsonOfLink linkBlank, jsonOfLink linkC])]"
    using storefront_renders_enabled_links
            [of "[jsonOfLink linkA, jsonOfLink linkBlank, jsonOfLink linkC]" browser_example "Some ''1''"]
          hyps
    by blast
  moreover have "snd (renderParsed browser_example (JArray [JNull, jsonOfLink linkA]) (Some ''1'')) = []"
    using storefront_renders_enabled_links [of "[JNull, jsonOfLink linkA]" browser_example "Some ''1''"]
          broken
    by blast
  ultimately show ?thesis
    using evaluated by -
qed

text \<open>
  An entry whose \<open>enabled\<close> is the text \<open>false\<close> is not \<open>=== true\<close>, yet it is truthy and
  gets its button. And beside a \<open>null\<close> entry an enabled link with a url gets none.
\<close>

theorem truthy_enabled_entry_is_rendered:
  "propertyOf entry_enabled_text ''enabled'' = Some (JString ''false'')
   \<and> \<not> entryStrictlyEnabled entry_enabled_text
   \<and> snd (renderParsed browser_example (JArray [entry_enabled_text]) (Some ''1'')) = [ButtonEl button_A]
   \<and> entryStrictlyEnabled (jsonOfLink linkA)
   \<and> snd (renderParsed browser_example (JArray [JNull, jsonOfLink linkA]) (Some ''1'')) = []"
  by (simp add: storefront_defs example_defs entryStrictlyEnabled_def isNonBlankString_def)

section \<open>Calling the storefront entry point again\<close>

lemma render_ignores_children:
  "renderExternalButtons env children (Some d) productId = renderExternalButtons env [] (Some d) productId"
  by (simp add: renderExternalButtons_def renderExternalButtons_try_def)

lemma hasLinkData_Some:
  "hasLinkData container \<Longrightarrow> \<exists>d. getAttribute container ''data-external-links'' = Some d"
  by (auto simp: hasLinkData_def split: option.splits)

lemma renderContainer_attributes [simp]: "attributes (renderContainer env container) = attributes container"
  by (simp add: renderContainer_def split: option.splits)

lemma getAttribute_renderContainer [simp]:
  "getAttribute (renderContainer env container) name = getAttribute container name"
  by (simp add: getAttribute_def)

lemma hasLinkData_renderContainer [simp]: "hasLinkData (renderContainer env container) = hasLinkData container"
  by (simp add: hasLinkData_def)

lemma renderContainer_target:
  assumes "hasLinkData container" and "targetDiv container = Some children"
  shows "targetDiv (renderContainer env container) =
     Some (renderExternalButtons env [] (getAttribute container ''data-external-links'')
             (getAttribute container ''data-product-id''))"
proof -
  obtain d where d: "getAttribute container ''data-external-links'' = Some d"
    using hasLinkData_Some [OF assms(1)] by blast
  show ?thesis
    using assms by (simp add: renderContainer_def d render_ignores_children [of env children])
qed

lemma renderContainer_no_target:
  "targetDiv container = None \<Longrightarrow> renderContainer env container = container"
  by (simp add: renderContainer_def)

lemma renderContainer_no_data:
  "\<not> hasLinkData container \<Longrightarrow> renderContainer env container = container"
  by (simp add: renderContainer_def)

lemma renderContainer_idem: "renderContainer env (renderContainer env container) = renderContainer env container"
proof (cases "hasLinkData container")
  case False
  then show ?thesis by (simp add: renderContainer_no_data)
next
  case True
  show ?thesis
  proof (cases "targetDiv container")
    case None
    then show ?thesis by (simp add: renderContainer_no_target)
  next
    case (Some children)
    have first: "targetDiv (renderContainer env container) =
        Some (renderExternalButtons env [] (getAttribute container ''data-external-links'')
                (getAttribute container ''data-product-id''))"
      by (rule renderContainer_target [OF True Some])
    have again: "targetDiv (renderContainer env (renderContainer env container)) =
        Some (renderExternalButtons env [] (getAttribute container ''data-external-links'')
                (getAttribute container ''data-product-id''))"
      using renderContainer_target [of "renderContainer env container" _ env] True first by simp
    show ?thesis
      by (rule Container.equality) (simp_all add: first again)
  qed
qed

lemma foldl_initContainer:
  "foldl (initContainer env initHideATC) acc cs =
     \<lparr>containers = containers acc @ map (renderContainer env) cs,
      page = foldl (\<lambda>p container.
                if getAttribute container ''data-hide-atc'' = Some ''true''
                then initHideATC (getAttribute container ''data-product-id'')
                       (getAttribute container ''data-atc-override-selector'') p
                else p) (page acc) cs\<rparr>"
  by (induction cs arbitrary: acc) (simp_all add: initContainer_def)

lemma init_eq:
  "init env initHideATC doc =
     \<lparr>containers = map (renderContainer env) (containers doc),
      page = foldl (\<lambda>p container.
                if getAttribute container ''data-hide-atc'' = Some ''true''
                then initHideATC (getAttribute container ''data-product-id'')
                       (getAttribute container ''data-atc-override-selector'') p
                else p) (page doc) (containers doc)\<rparr>"
  by (simp add: init_def foldl_initContainer)

lemma containers_init_funpow:
  "containers ((init env initHideATC ^^ Suc n) doc) = map (renderContainer env) (containers doc)"
proof (induction n)
  case 0
  show ?case by (simp add: init_eq)
next
  case (Suc n)
  have "containers ((init env initHideATC ^^ Suc (Suc n)) doc) =
      map (renderContainer env) (containers ((init env initHideATC ^^ Suc n) doc))"
    by (simp add: init_eq)
  also have "\<dots> = map (renderContainer env) (map (renderContainer env) (containers doc))"
    by (simp only: Suc.IH)
  also have "\<dots> = map (renderContainer env) (containers doc)"
    by (simp add: renderContainer_idem)
  finally show ?case .
qed

text \<open>
  Claim C8, as the script has it. \<open>init\<close> keeps no record of the containers it has
  processed: every call renders every container that carries link data and has a
  target, from the data alone (the children that are there are discarded), and runs the
  add-to-cart hiding for every container that asks for it. With the attributes
  unchanged, a second call, and any number of calls, therefore leave the containers as
  the first one did.
\<close>

theorem init_rerenders_every_container:
  "containers (init env initHideATC doc) = map (renderContainer env) (containers doc)
   \<and> containers (init env initHideATC (init env initHideATC doc)) = containers (init env initHideATC doc)
   \<and> containers ((init env initHideATC ^^ Suc n) doc) = containers (init env initHideATC doc)
   \<and> (hasLinkData container \<and> targetDiv container = Some children \<longrightarrow>
        targetDiv (renderContainer env container) =
          Some (renderExternalButtons env [] (getAttribute container ''data-external-links'')
                  (getAttribute container ''data-product-id'')))
   \<and> page (init env initHideATC doc) =
        foldl (\<lambda>p container.
                 if getAttribute container ''data-hide-atc'' = Some ''true''
                 then initHideATC (getAttribute container ''data-product-id'')
                        (getAttribute container ''data-atc-override-selector'') p
                 else p) (page doc) (containers doc)"
  by (simp add: init_eq renderContainer_idem renderContainer_target containers_init_funpow
        del: funpow.simps)

theorem init_rerenders_every_container_witness:
  "hasLinkData container_example \<and> targetDiv container_example = Some []
   \<and> init browser_example count_hide \<lparr>containers = [container_example], page = 0\<rparr> =
       \<lparr>containers = [container_example\<lparr>targetDiv := Some [ButtonEl button_A]\<rparr>], page = 1\<rparr>
   \<and> init browser_example count_hide
        (init browser_example count_hide \<lparr>containers = [container_example], page = 0\<rparr>) =
       \<lparr>containers = [container_example\<lparr>targetDiv := Some [ButtonEl button_A]\<rparr>], page = 2\<rparr>"
proof -
  have hyps: "hasLinkData container_example \<and> targetDiv container_example = Some []"
    by (simp add: hasLinkData_def getAttribute_def example_defs json_text_defs trim_def isWhiteSpace_def)
  have evaluated: ?thesis
    by (simp add: init_def initContainer_def renderContainer_def hasLinkData_def getAttribute_def
          storefront_defs example_defs json_text_defs)
  have "targetDiv (renderContainer browser_example container_example) =
      Some (renderExternalButtons browser_example []
              (getAttribute container_example ''data-external-links'')
              (getAttribute container_example ''data-product-id''))"
    using init_rerenders_every_container
            [of browser_example count_hide "\<lparr>containers = [container_example], page = 0\<rparr>" 0
                container_example "[]"]
          hyps
    by blast
  then show ?thesis
    using evaluated by -
qed

text \<open>
  A container that a first call has rendered is rendered again by the next call: after
  its data attribute is changed to a disabled link, the button of the first call is
  gone, and the add-to-cart hiding has run a second time.
\<close>

theorem init_renders_rendered_container_again:
  "init browser_example count_hide \<lparr>containers = [container_example], page = 0\<rparr> =
     \<lparr>containers = [container_example\<lparr>targetDiv := Some [ButtonEl button_A]\<rparr>], page = 1\<rparr>
   \<and> init browser_example count_hide
        \<lparr>containers =
           [\<lparr>attributes = [(''data-product-id'', ''1''), (''data-hide-atc'', ''true''),
                           (''data-external-links'', JSON_stringify [linkC])],
             targetDiv = Some [ButtonEl button_A]\<rparr>],
         page = 1\<rparr> =
       \<lparr>containers =
          [\<lparr>attributes = [(''data-product-id'', ''1''), (''data-hide-atc'', ''true''),
                          (''data-external-links'', JSON_stringify [linkC])],
            targetDiv = Some []\<rparr>],
        page = 2\<rparr>"
  by (simp add: init_def initContainer_def renderContainer_def hasLinkData_def getAttribute_def
        storefront_defs example_defs json_text_defs)

end
